theory Spec2Isabelle
  imports Complex_Main "HOL-Library.Sublist"
begin

section \<open>The e-book catalogue server (server.js)\<close>

text \<open>
  The server is an Express application with one table (\<open>books\<close>) in PostgreSQL and one
  bucket (\<open>ebook-pdf\<close>) in an object store. Each route handler is modelled as a function
  from the state it can touch (the table, the bucket) and the values it receives to an
  outcome: the new table, the new bucket and the sequence of calls the handler made, in the
  order it made them. Everything the handler cannot decide itself is read from an
  environment: which database call raises, what the platform's URL parser returns, and how
  the object store answers a delete request, and how PostgreSQL reads the text of a route
  parameter as an integer.

  A \<open>string\<close> is a text in UTF-8: an ASCII character is one \<open>char\<close>, any other
  character is a lead byte followed by continuation bytes.
\<close>

subsection \<open>JavaScript values\<close>

text \<open>
  The fields of a parsed request body and a parsed cookie. \<open>JNum\<close> carries the value of a
  finite number; \<open>JObject\<close> stands for any object or array (always truthy, and never
  \<open>===\<close> to another object parsed from the same body).
\<close>

datatype jsval = JUndefined | JNull | JBool bool | JNum real | JStr string | JObject

fun truthy :: "jsval \<Rightarrow> bool" where
  "truthy JUndefined = False"
| "truthy JNull = False"
| "truthy (JBool b) = b"
| "truthy (JNum x) = (x \<noteq> 0)"
| "truthy (JStr s) = (s \<noteq> [])"
| "truthy JObject = True"

fun strict_eq :: "jsval \<Rightarrow> jsval \<Rightarrow> bool" where
  "strict_eq JUndefined JUndefined = True"
| "strict_eq JNull JNull = True"
| "strict_eq (JBool a) (JBool b) = (a = b)"
| "strict_eq (JNum a) (JNum b) = (a = b)"
| "strict_eq (JStr a) (JStr b) = (a = b)"
| "strict_eq _ _ = False"

subsection \<open>String.prototype.split and the storage key\<close>

text \<open>
  \<open>cut sep s\<close> finds the first occurrence of \<open>sep\<close> in \<open>s\<close> and returns what stands
  before and after it. \<open>js_split\<close> is \<open>s.split(sep)\<close>: it cuts at every occurrence, left to
  right, and an empty separator splits into single characters.
\<close>

fun cut :: "string \<Rightarrow> string \<Rightarrow> (string \<times> string) option" where
  "cut sep [] = (if sep = [] then Some ([], []) else None)"
| "cut sep (c # cs) =
     (if prefix sep (c # cs) then Some ([], drop (length sep) (c # cs))
      else (case cut sep cs of None \<Rightarrow> None | Some (a, b) \<Rightarrow> Some (c # a, b)))"

function js_split :: "string \<Rightarrow> string \<Rightarrow> string list" where
  "js_split sep s =
     (if sep = [] then map (\<lambda>c. [c]) s
      else (case cut sep s of None \<Rightarrow> [s] | Some (a, b) \<Rightarrow> a # js_split sep b))"
  by pat_completeness auto
termination
proof (relation "measure (\<lambda>(sep, s). length s)")
  show "wf (measure (\<lambda>(sep, s). length s))" by simp
next
  fix sep s :: string and x2 a b
  assume sep: "sep \<noteq> []" and c: "cut sep s = Some x2" and x: "(a, b) = x2"
  have shorter: "cut sep t = Some (a', b') \<Longrightarrow> length b' < length t" for t a' b'
  proof (induction t arbitrary: a')
    case Nil
    with sep show ?case by simp
  next
    case (Cons y ys)
    show ?case
    proof (cases "prefix sep (y # ys)")
      case True
      with Cons.prems sep show ?thesis by auto
    next
      case False
      with Cons.prems obtain a'' where "cut sep ys = Some (a'', b')"
        by (auto split: option.splits)
      from Cons.IH [OF this] show ?thesis by simp
    qed
  qed
  from c x have "cut sep s = Some (a, b)" by simp
  from shorter [OF this] show "((sep, b), (sep, s)) \<in> measure (\<lambda>(sep, s). length s)" by simp
qed

text \<open>\<open>xs[1]\<close>: the element at index 1, \<open>undefined\<close> (here \<open>None\<close>) when there is none.\<close>

fun index1 :: "'a list \<Rightarrow> 'a option" where
  "index1 (x # y # ys) = Some y"
| "index1 _ = None"

text \<open>
  \<open>pathname.split('/ebook-pdf/')[1]\<close> followed by the test \<open>if (filePath)\<close>: the key the
  handler asks the object store to delete, \<open>None\<close> when the test fails (the element is
  \<open>undefined\<close> or the empty string).
\<close>

definition storage_key :: "string \<Rightarrow> string option" where
  "storage_key pathname =
     (case index1 (js_split ''/ebook-pdf/'' pathname) of
        None \<Rightarrow> None
      | Some k \<Rightarrow> if k = [] then None else Some k)"

subsection \<open>The table, the bucket and the environment\<close>

text \<open>
  A row of \<open>books\<close> as \<open>createTable\<close> declares it (server.js, lines 35-42): \<open>id\<close> is
  an \<open>int4\<close>, \<open>title\<close> is \<open>VARCHAR(255) NOT NULL\<close>, \<open>pdf_url\<close> is
  \<open>VARCHAR(1024) NOT NULL\<close>, \<open>description\<close> and \<open>thumbnail_base64\<close> are \<open>TEXT\<close>. A
  column holds text or \<open>NULL\<close> (\<open>None\<close>). The database state also holds what the server
  assigns on insertion: the next value of the \<open>SERIAL\<close> sequence and the current
  timestamp.
\<close>

record book =
  book_id :: int
  title :: "string option"
  description :: "string option"
  thumbnail_base64 :: "string option"
  pdf_url :: "string option"
  created_at :: nat

record database =
  books :: "book list"
  next_id :: int
  clock :: nat

text \<open>The bucket \<open>ebook-pdf\<close>: the keys of the objects it holds.\<close>

type_synonym bucket = "string set"

text \<open>
  The places where the handlers call the database. A call raises when the request breaks
  the schema (a route parameter that is no \<open>int4\<close>, a text too long for its column, a
  \<open>NULL\<close> for a \<open>NOT NULL\<close> column), which the definitions below work out from the
  request, and also when the environment says so (a lost connection, a time-out, any
  other reason).
\<close>

datatype site =
    AtConnect | AtBegin | AtSelectPdf | AtRollbackNotFound | AtDeleteRow | AtCommit
  | AtRollbackCatch | AtUpdate | AtInsert | AtSelectPage | AtSelectCount

text \<open>
  How the object store answers \<open>remove([key])\<close>: the object is deleted; the call returns
  an error result (which the handlers never read) and the object stays; or the call throws.
\<close>

datatype removal = Deleted | Refused | Threw

text \<open>
  The environment of one request.
  \<^item> \<open>raises\<close>: the database call at this place raises for a reason of its own.
  \<^item> \<open>int4_in t\<close>: the integer PostgreSQL reads from the text \<open>t\<close> of a parameter
    compared with the \<open>int4\<close> column \<open>id\<close>; \<open>None\<close> when it raises instead (no
    integer literal, or one outside \<open>int4\<close>).
  \<^item> \<open>url_pathname v\<close>: \<open>new URL(v).pathname\<close>, \<open>None\<close> when the constructor throws
    (the platform's parser, not part of the repository).
  \<^item> \<open>remove_object k\<close>: the object store's answer to \<open>remove([k])\<close>.
  \<^item> \<open>param_text v\<close>: the text the database driver sends for a parameter that is neither
    a string nor \<open>null\<close>/\<open>undefined\<close>.
\<close>

record env =
  raises :: "site \<Rightarrow> bool"
  int4_in :: "string \<Rightarrow> int option"
  url_pathname :: "jsval \<Rightarrow> string option"
  remove_object :: "string \<Rightarrow> removal"
  param_text :: "jsval \<Rightarrow> string"

definition sql_param :: "env \<Rightarrow> jsval \<Rightarrow> string option" where
  "sql_param e v =
     (case v of JUndefined \<Rightarrow> None | JNull \<Rightarrow> None | JStr s \<Rightarrow> Some s
      | _ \<Rightarrow> Some (param_text e v))"

definition column_value :: "string option \<Rightarrow> jsval" where
  "column_value c = (case c of None \<Rightarrow> JNull | Some s \<Rightarrow> JStr s)"

text \<open>The row a statement with \<open>WHERE id = $n\<close> finds for the text of its parameter.\<close>

definition matching_row :: "env \<Rightarrow> database \<Rightarrow> string \<Rightarrow> book option" where
  "matching_row e d i = find (\<lambda>r. Some (book_id r) = int4_in e i) (books d)"

text \<open>
  \<open>VARCHAR(n)\<close>. A text of more than \<open>n\<close> characters is refused (\<open>None\<close>: the
  statement raises), unless all the characters in excess are spaces: then it is cut to
  \<open>n\<close> characters. \<open>after_chars n s\<close> is what follows the first \<open>n\<close> characters of
  \<open>s\<close>.
\<close>

definition is_continuation :: "char \<Rightarrow> bool" where
  "is_continuation c = (digit7 c \<and> \<not> digit6 c)"

fun after_chars :: "nat \<Rightarrow> string \<Rightarrow> string" where
  "after_chars n [] = []"
| "after_chars 0 (c # cs) = (if is_continuation c then after_chars 0 cs else c # cs)"
| "after_chars (Suc n) (c # cs) =
     (if is_continuation c then after_chars (Suc n) cs else after_chars n cs)"

definition varchar :: "nat \<Rightarrow> string option \<Rightarrow> string option option" where
  "varchar n v =
     (case v of
        None \<Rightarrow> Some None
      | Some s \<Rightarrow>
          (let rest = after_chars n s
           in if rest = [] then Some (Some s)
              else if list_all (\<lambda>c. c = CHR 0x20) rest
                then Some (Some (take (length s - length rest) s))
              else None))"

text \<open>What the column holds once the statement has stored the value.\<close>

definition stored :: "nat \<Rightarrow> string option \<Rightarrow> string option" where
  "stored n v = (case varchar n v of None \<Rightarrow> None | Some x \<Rightarrow> x)"

subsection \<open>Responses and the calls a handler makes\<close>

datatype message = Msg string | ErrMessage

datatype payload =
    Ack bool message
  | BookPage "book list" int int int
  | InexactPage
  | RedirectTo string
  | SendFile string

record response =
  status :: nat
  payload :: payload

datatype sql =
    SqlBegin | SqlSelectPdf string | SqlDelete string | SqlCommit | SqlRollback
  | SqlUpdate string | SqlInsert | SqlSelectPage int int | SqlSelectPageInexact
  | SqlSelectCount

datatype event =
    PoolConnect
  | Query sql
  | Release
  | NewURL jsval
  | StorageRemove string
  | ConsoleWarn
  | ConsoleError
  | Send response

text \<open>
  What a handler leaves behind: the committed table, the bucket, the calls it made in
  order, and whether an exception left the handler (\<open>escaped\<close>). A call is listed when
  it is made, whether it returns or raises.
\<close>

record outcome =
  db :: database
  store :: bucket
  trace :: "event list"
  escaped :: bool

fun sent :: "event list \<Rightarrow> response option" where
  "sent [] = None"
| "sent (Send r # es) = Some r"
| "sent (_ # es) = sent es"

definition response_of :: "outcome \<Rightarrow> response option" where
  "response_of r = sent (trace r)"

definition status_of :: "outcome \<Rightarrow> nat option" where
  "status_of r = map_option status (response_of r)"

definition json :: "nat \<Rightarrow> bool \<Rightarrow> string \<Rightarrow> response" where
  "json code ok m = \<lparr>status = code, payload = Ack ok (Msg m)\<rparr>"

subsection \<open>Object Reference Cleanup\<close>

text \<open>
  The block both handlers run (server.js, lines 188-196 and 225-232):
  \<^verbatim>\<open>
  try {
      const filePath = new URL(pdf_url).pathname.split('/ebook-pdf/')[1];
      if (filePath) {
          await supabaseAdmin.storage.from('ebook-pdf').remove([filePath]);
      }
  } catch (storageErr) {
      console.warn(..., storageErr.message);
  }
  \<close>
  It returns the bucket and the calls made. Nothing leaves the block: both the parser's
  exception and the store's are caught and logged. The value \<open>remove\<close> returns is not
  read: when it holds an error, nothing is logged.
\<close>

definition cleanup :: "env \<Rightarrow> bucket \<Rightarrow> jsval \<Rightarrow> bucket \<times> event list" where
  "cleanup e s url =
     (case url_pathname e url of
        None \<Rightarrow> (s, [NewURL url, ConsoleWarn])
      | Some p \<Rightarrow>
          (case storage_key p of
             None \<Rightarrow> (s, [NewURL url])
           | Some k \<Rightarrow>
               (case remove_object e k of
                  Deleted \<Rightarrow> (s - {k}, [NewURL url, StorageRemove k])
                | Refused \<Rightarrow> (s, [NewURL url, StorageRemove k])
                | Threw \<Rightarrow> (s, [NewURL url, StorageRemove k, ConsoleWarn]))))"

subsection \<open>DELETE /api/books/:id\<close>

text \<open>
  The \<open>catch\<close> block of the delete handler once a client has been acquired: it issues
  \<open>ROLLBACK\<close>, logs and answers 500; \<open>finally\<close> releases the client. When the
  \<open>ROLLBACK\<close> itself raises, the exception leaves the handler: nothing is sent, and
  \<open>finally\<close> still releases the client.
\<close>

definition rollback_and_fail :: "env \<Rightarrow> database \<Rightarrow> bucket \<Rightarrow> event list \<Rightarrow> outcome" where
  "rollback_and_fail e d s tr =
     (if raises e AtRollbackCatch
      then \<lparr>db = d, store = s, trace = tr @ [Query SqlRollback, Release], escaped = True\<rparr>
      else \<lparr>db = d, store = s,
            trace = tr @ [Query SqlRollback, ConsoleError,
                          Send (json 500 False ''Server error saat menghapus''), Release],
            escaped = False\<rparr>)"

text \<open>
  The handler (server.js, lines 209-243). The route parameter \<open>req.params.id\<close> is a text
  and goes to PostgreSQL as it is: the \<open>SELECT\<close> raises when PostgreSQL cannot read it as
  an \<open>int4\<close>. The table of the outcome is the committed one: the row disappears from it
  only when \<open>COMMIT\<close> has succeeded.
\<close>

definition delete_book :: "env \<Rightarrow> database \<Rightarrow> bucket \<Rightarrow> string \<Rightarrow> outcome" where
  "delete_book e d s i =
     (if raises e AtConnect then
        \<lparr>db = d, store = s,
         trace = [PoolConnect, ConsoleError, Send (json 500 False ''Server error saat menghapus'')],
         escaped = False\<rparr>
      else if raises e AtBegin then
        rollback_and_fail e d s [PoolConnect, Query SqlBegin]
      else if raises e AtSelectPdf \<or> int4_in e i = None then
        rollback_and_fail e d s [PoolConnect, Query SqlBegin, Query (SqlSelectPdf i)]
      else
        (case matching_row e d i of
           None \<Rightarrow>
             if raises e AtRollbackNotFound then
               rollback_and_fail e d s
                 [PoolConnect, Query SqlBegin, Query (SqlSelectPdf i), Query SqlRollback]
             else
               \<lparr>db = d, store = s,
                trace = [PoolConnect, Query SqlBegin, Query (SqlSelectPdf i), Query SqlRollback,
                         Send (json 404 False ''Buku tidak ditemukan''), Release],
                escaped = False\<rparr>
         | Some b \<Rightarrow>
             if raises e AtDeleteRow then
               rollback_and_fail e d s
                 [PoolConnect, Query SqlBegin, Query (SqlSelectPdf i), Query (SqlDelete i)]
             else
               (case cleanup e s (column_value (pdf_url b)) of
                  (s', ct) \<Rightarrow>
                    if raises e AtCommit then
                      rollback_and_fail e d s'
                        ([PoolConnect, Query SqlBegin, Query (SqlSelectPdf i), Query (SqlDelete i)]
                          @ ct @ [Query SqlCommit])
                    else
                      \<lparr>db = d\<lparr>books := filter (\<lambda>b. Some (book_id b) \<noteq> int4_in e i) (books d)\<rparr>,
                       store = s',
                       trace =
                         [PoolConnect, Query SqlBegin, Query (SqlSelectPdf i), Query (SqlDelete i)]
                           @ ct
                           @ [Query SqlCommit, Send (json 200 True ''Buku berhasil dihapus''),
                              Release],
                       escaped = False\<rparr>)))"

subsection \<open>PUT /api/books/:id\<close>

text \<open>
  The fields the create and update handlers read from \<open>req.body\<close>: \<open>title\<close>,
  \<open>description\<close>, \<open>thumbnail_base64\<close>, \<open>pdf_url\<close> and \<open>old_pdf_url\<close> (prefixed here,
  since the columns of the table bear the same names).
\<close>

record req_body =
  b_title :: jsval
  b_description :: jsval
  b_thumbnail_base64 :: jsval
  b_pdf_url :: jsval
  b_old_pdf_url :: jsval

text \<open>
  \<open>UPDATE books SET title = $1, description = $2, thumbnail_base64 = $3, pdf_url = $4
  WHERE id = $5\<close>. The statement raises when PostgreSQL cannot read the id, when the new
  title or URL is too long for its column (checked when the statement is prepared, whether
  or not a row has the id), and when a row has the id and the new title or URL is
  \<open>NULL\<close>. Otherwise every row with this id gets the four columns.
\<close>

definition update_raises :: "env \<Rightarrow> database \<Rightarrow> string \<Rightarrow> req_body \<Rightarrow> bool" where
  "update_raises e d i b =
     (raises e AtUpdate
      \<or> int4_in e i = None
      \<or> varchar 255 (sql_param e (b_title b)) = None
      \<or> varchar 1024 (sql_param e (b_pdf_url b)) = None
      \<or> (matching_row e d i \<noteq> None
          \<and> (sql_param e (b_title b) = None \<or> sql_param e (b_pdf_url b) = None)))"

definition update_rows :: "env \<Rightarrow> string \<Rightarrow> req_body \<Rightarrow> book list \<Rightarrow> book list" where
  "update_rows e i b rows =
     map (\<lambda>r. if Some (book_id r) = int4_in e i
              then r\<lparr>title := stored 255 (sql_param e (b_title b)),
                     description := sql_param e (b_description b),
                     thumbnail_base64 := sql_param e (b_thumbnail_base64 b),
                     pdf_url := stored 1024 (sql_param e (b_pdf_url b))\<rparr>
              else r) rows"

text \<open>
  The handler (server.js, lines 172-204): the update statement, then the cleanup block
  under the guard \<open>old_pdf_url && old_pdf_url !== pdf_url\<close>, then the 200 answer. The
  statement runs on the pool, outside any transaction.
\<close>

definition put_book :: "env \<Rightarrow> database \<Rightarrow> bucket \<Rightarrow> string \<Rightarrow> req_body \<Rightarrow> outcome" where
  "put_book e d s i b =
     (if update_raises e d i b then
        \<lparr>db = d, store = s,
         trace = [Query (SqlUpdate i), ConsoleError,
                  Send \<lparr>status = 500, payload = Ack False ErrMessage\<rparr>],
         escaped = False\<rparr>
      else
        (case (if truthy (b_old_pdf_url b) \<and> \<not> strict_eq (b_old_pdf_url b) (b_pdf_url b)
               then cleanup e s (b_old_pdf_url b) else (s, [])) of
           (s', ct) \<Rightarrow>
             \<lparr>db = d\<lparr>books := update_rows e i b (books d)\<rparr>,
              store = s',
              trace = [Query (SqlUpdate i)] @ ct
                        @ [Send (json 200 True ''Buku berhasil diperbarui'')],
              escaped = False\<rparr>))"

subsection \<open>POST /api/books\<close>

text \<open>
  \<open>INSERT INTO books (title, description, thumbnail_base64, pdf_url) VALUES ($1, $2, $3,
  $4)\<close>. The statement raises when the title or the URL is too long for its column or is
  \<open>NULL\<close>. Otherwise it adds one row: the id comes from the sequence and \<open>created_at\<close>
  from the column default.
\<close>

definition insert_raises :: "env \<Rightarrow> req_body \<Rightarrow> bool" where
  "insert_raises e b =
     (raises e AtInsert
      \<or> varchar 255 (sql_param e (b_title b)) = None
      \<or> varchar 1024 (sql_param e (b_pdf_url b)) = None
      \<or> sql_param e (b_title b) = None
      \<or> sql_param e (b_pdf_url b) = None)"

definition new_row :: "env \<Rightarrow> database \<Rightarrow> req_body \<Rightarrow> book" where
  "new_row e d b =
     \<lparr>book_id = next_id d,
      title = stored 255 (sql_param e (b_title b)),
      description = sql_param e (b_description b),
      thumbnail_base64 = sql_param e (b_thumbnail_base64 b),
      pdf_url = stored 1024 (sql_param e (b_pdf_url b)),
      created_at = clock d\<rparr>"

text \<open>The handler (server.js, lines 148-168).\<close>

definition post_book :: "env \<Rightarrow> database \<Rightarrow> bucket \<Rightarrow> req_body \<Rightarrow> outcome" where
  "post_book e d s b =
     (if \<not> truthy (b_title b) \<or> \<not> truthy (b_thumbnail_base64 b) \<or> \<not> truthy (b_pdf_url b) then
        \<lparr>db = d, store = s, trace = [Send (json 400 False ''Data tidak lengkap'')],
         escaped = False\<rparr>
      else if insert_raises e b then
        \<lparr>db = d, store = s,
         trace = [Query SqlInsert, ConsoleError,
                  Send \<lparr>status = 500, payload = Ack False ErrMessage\<rparr>],
         escaped = False\<rparr>
      else
        \<lparr>db = d\<lparr>books := books d @ [new_row e d b], next_id := next_id d + 1\<rparr>,
         store = s,
         trace = [Query SqlInsert, Send (json 201 True ''Buku berhasil ditambahkan'')],
         escaped = False\<rparr>)"

subsection \<open>GET /api/books\<close>

text \<open>
  \<open>parseInt(s)\<close> with no radix: leading white space is skipped, then an optional sign, then
  an optional \<open>0x\<close>/\<open>0X\<close> (radix 16), then the longest run of digits; \<open>NaN\<close> (here
  \<open>None\<close>) when that run is empty. The white space is JavaScript's: the characters
  U+0009 to U+000D, U+0020, U+00A0, U+1680, U+2000 to U+200A, U+2028, U+2029, U+202F,
  U+205F, U+3000 and U+FEFF, here in UTF-8. The result is the integer the digits denote;
  JavaScript holds it exactly up to \<open>2^53\<close> in magnitude (see \<open>inexact\<close> below).
\<close>

definition white_space :: "string list" where
  "white_space =
     [[CHR 0x09], [CHR 0x0A], [CHR 0x0B], [CHR 0x0C], [CHR 0x0D], [CHR 0x20],
      [CHR 0xC2, CHR 0xA0],
      [CHR 0xE1, CHR 0x9A, CHR 0x80],
      [CHR 0xE2, CHR 0x80, CHR 0x80], [CHR 0xE2, CHR 0x80, CHR 0x81],
      [CHR 0xE2, CHR 0x80, CHR 0x82], [CHR 0xE2, CHR 0x80, CHR 0x83],
      [CHR 0xE2, CHR 0x80, CHR 0x84], [CHR 0xE2, CHR 0x80, CHR 0x85],
      [CHR 0xE2, CHR 0x80, CHR 0x86], [CHR 0xE2, CHR 0x80, CHR 0x87],
      [CHR 0xE2, CHR 0x80, CHR 0x88], [CHR 0xE2, CHR 0x80, CHR 0x89],
      [CHR 0xE2, CHR 0x80, CHR 0x8A],
      [CHR 0xE2, CHR 0x80, CHR 0xA8], [CHR 0xE2, CHR 0x80, CHR 0xA9],
      [CHR 0xE2, CHR 0x80, CHR 0xAF],
      [CHR 0xE2, CHR 0x81, CHR 0x9F],
      [CHR 0xE3, CHR 0x80, CHR 0x80],
      [CHR 0xEF, CHR 0xBB, CHR 0xBF]]"

function skip_white :: "string \<Rightarrow> string" where
  "skip_white s =
     (case find (\<lambda>w. prefix w s) white_space of
        None \<Rightarrow> s
      | Some w \<Rightarrow> if w = [] then s else skip_white (drop (length w) s))"
  by pat_completeness auto
termination
proof (relation "measure length")
  show "wf (measure length)" by simp
next
  fix s w :: string
  assume found: "find (\<lambda>w. prefix w s) white_space = Some w" and w: "w \<noteq> []"
  from found have "prefix w s" by (auto simp: find_Some_iff)
  then obtain rest where "s = w @ rest" by (auto simp: prefix_def)
  with w show "(drop (length w) s, s) \<in> measure length" by simp
qed

definition digit :: "nat \<Rightarrow> char \<Rightarrow> nat option" where
  "digit radix c =
     (case map_of
        [(CHR ''0'', 0), (CHR ''1'', 1), (CHR ''2'', 2), (CHR ''3'', 3), (CHR ''4'', 4),
         (CHR ''5'', 5), (CHR ''6'', 6), (CHR ''7'', 7), (CHR ''8'', 8), (CHR ''9'', 9),
         (CHR ''a'', 10), (CHR ''b'', 11), (CHR ''c'', 12), (CHR ''d'', 13), (CHR ''e'', 14),
         (CHR ''f'', 15), (CHR ''A'', 10), (CHR ''B'', 11), (CHR ''C'', 12), (CHR ''D'', 13),
         (CHR ''E'', 14), (CHR ''F'', 15)] c of
        None \<Rightarrow> None
      | Some v \<Rightarrow> if v < radix then Some v else None)"

fun leading_digits :: "nat \<Rightarrow> string \<Rightarrow> nat list" where
  "leading_digits radix [] = []"
| "leading_digits radix (c # cs) =
     (case digit radix c of None \<Rightarrow> [] | Some v \<Rightarrow> v # leading_digits radix cs)"

definition parseInt :: "string \<Rightarrow> int option" where
  "parseInt s =
     (let s1 = skip_white s;
          negative = (case s1 of [] \<Rightarrow> False | c # _ \<Rightarrow> c = CHR ''-'');
          s2 = (case s1 of [] \<Rightarrow> [] | c # r \<Rightarrow> if c = CHR ''-'' \<or> c = CHR ''+'' then r else s1);
          hex = (prefix ''0x'' s2 \<or> prefix ''0X'' s2);
          s3 = (if hex then drop 2 s2 else s2);
          radix = (if hex then 16 else 10);
          ds = leading_digits radix s3;
          n = int (foldl (\<lambda>acc v. acc * radix + v) 0 ds)
      in if ds = [] then None else Some (if negative then - n else n))"

text \<open>
  \<open>parseInt(req.query.x) || dflt\<close>: the default replaces \<open>NaN\<close> and 0, the two falsy
  numbers. A missing query parameter is \<open>undefined\<close>, which \<open>parseInt\<close> reads as \<open>NaN\<close>.
\<close>

definition query_int :: "string option \<Rightarrow> int \<Rightarrow> int" where
  "query_int q dflt =
     (case (case q of None \<Rightarrow> None | Some s \<Rightarrow> parseInt s) of
        None \<Rightarrow> dflt
      | Some n \<Rightarrow> if n = 0 then dflt else n)"

text \<open>\<open>ORDER BY created_at DESC\<close>.\<close>

definition newest_first :: "book list \<Rightarrow> book list" where
  "newest_first rows = rev (sort_key created_at rows)"

text \<open>
  Beyond \<open>2^53\<close> in magnitude JavaScript's numbers no longer hold every integer, and what
  \<open>parseInt\<close>, the subtraction and the product return is the nearest number they hold.
\<close>

definition inexact :: "int \<Rightarrow> bool" where
  "inexact n = (9007199254740992 < \<bar>n\<bar>)"

text \<open>
  The handler (server.js, lines 119-144). PostgreSQL raises on a negative \<open>LIMIT\<close> or
  \<open>OFFSET\<close>; \<open>Math.ceil(totalBooks / limit)\<close> is the ceiling of the exact quotient. Where
  the page, the limit or the offset is \<open>inexact\<close>, the numbers the handler sends and
  returns are not worked out (\<open>SqlSelectPageInexact\<close>, \<open>InexactPage\<close>), and whether the
  database accepts them is left to the environment. Nor are the numbers returned worked
  out where the row count is \<open>inexact\<close>: the quotient is then no longer the exact one.
\<close>

definition get_books :: "env \<Rightarrow> database \<Rightarrow> bucket \<Rightarrow> string option \<Rightarrow> string option \<Rightarrow> outcome" where
  "get_books e d s page_q limit_q =
     (let page = query_int page_q 1;
          limit = query_int limit_q 5;
          offset = (page - 1) * limit;
          totalBooks = int (length (books d))
      in if inexact page \<or> inexact limit \<or> inexact offset then
           (if raises e AtSelectPage then
              \<lparr>db = d, store = s,
               trace = [Query SqlSelectPageInexact, ConsoleError,
                        Send (json 500 False ''Server error'')],
               escaped = False\<rparr>
            else if raises e AtSelectCount then
              \<lparr>db = d, store = s,
               trace = [Query SqlSelectPageInexact, Query SqlSelectCount, ConsoleError,
                        Send (json 500 False ''Server error'')],
               escaped = False\<rparr>
            else
              \<lparr>db = d, store = s,
               trace = [Query SqlSelectPageInexact, Query SqlSelectCount,
                        Send \<lparr>status = 200, payload = InexactPage\<rparr>],
               escaped = False\<rparr>)
         else if raises e AtSelectPage \<or> limit < 0 \<or> offset < 0 then
           \<lparr>db = d, store = s,
            trace = [Query (SqlSelectPage limit offset), ConsoleError,
                     Send (json 500 False ''Server error'')],
            escaped = False\<rparr>
         else if raises e AtSelectCount then
           \<lparr>db = d, store = s,
            trace = [Query (SqlSelectPage limit offset), Query SqlSelectCount, ConsoleError,
                     Send (json 500 False ''Server error'')],
            escaped = False\<rparr>
         else
           \<lparr>db = d, store = s,
            trace = [Query (SqlSelectPage limit offset), Query SqlSelectCount,
                     Send \<lparr>status = 200,
                           payload =
                             (if inexact totalBooks then InexactPage
                              else BookPage
                                     (take (nat limit) (drop (nat offset) (newest_first (books d))))
                                     page \<lceil>real_of_int totalBooks / real_of_int limit\<rceil>
                                     totalBooks)\<rparr>],
            escaped = False\<rparr>)"

subsection \<open>The session gate and the protected routes\<close>

text \<open>What \<open>authMiddleware\<close> reads from the request.\<close>

record request =
  session :: jsval
  xhr :: bool
  accept :: "string option"
  path :: string

text \<open>\<open>s.includes(sub)\<close>.\<close>

definition js_includes :: "string \<Rightarrow> string \<Rightarrow> bool" where
  "js_includes s sub = list_ex (prefix sub) (suffixes s)"

definition isApiRequest :: "request \<Rightarrow> bool" where
  "isApiRequest req =
     (xhr req
      \<or> (case accept req of None \<Rightarrow> False | Some a \<Rightarrow> js_includes a ''application/json'')
      \<or> prefix ''/api/'' (path req))"

text \<open>
  \<open>authMiddleware\<close> (server.js, lines 53-71): \<open>None\<close> is the call of \<open>next()\<close>, otherwise
  the response it sends itself.
\<close>

definition authMiddleware :: "request \<Rightarrow> response option" where
  "authMiddleware req =
     (if session req = JStr ''admin_logged_in'' then None
      else if isApiRequest req then
        Some (json 401 False ''Akses ditolak. Silakan login terlebih dahulu.'')
      else Some \<lparr>status = 302, payload = RedirectTo ''/login''\<rparr>)"

text \<open>
  The routes registered with \<open>authMiddleware\<close> in front of their handler: the dashboard
  page, \<open>/api/check-auth\<close>, and the four routes under \<open>/api/books\<close>.
\<close>

datatype endpoint =
    Dashboard
  | CheckAuth
  | ListBooks "string option" "string option"
  | CreateBook req_body
  | UpdateBook string req_body
  | DeleteBook string

definition handler :: "env \<Rightarrow> endpoint \<Rightarrow> database \<Rightarrow> bucket \<Rightarrow> outcome" where
  "handler e ep d s =
     (case ep of
        Dashboard \<Rightarrow>
          \<lparr>db = d, store = s,
           trace = [Send \<lparr>status = 200, payload = SendFile ''public/dashboard.html''\<rparr>],
           escaped = False\<rparr>
      | CheckAuth \<Rightarrow>
          \<lparr>db = d, store = s, trace = [Send (json 200 True ''Autentikasi valid'')],
           escaped = False\<rparr>
      | ListBooks page_q limit_q \<Rightarrow> get_books e d s page_q limit_q
      | CreateBook b \<Rightarrow> post_book e d s b
      | UpdateBook i b \<Rightarrow> put_book e d s i b
      | DeleteBook i \<Rightarrow> delete_book e d s i)"

definition protected :: "env \<Rightarrow> request \<Rightarrow> endpoint \<Rightarrow> database \<Rightarrow> bucket \<Rightarrow> outcome" where
  "protected e req ep d s =
     (case authMiddleware req of
        Some r \<Rightarrow> \<lparr>db = d, store = s, trace = [Send r], escaped = False\<rparr>
      | None \<Rightarrow> handler e ep d s)"

subsection \<open>Observations on a run of the delete handler\<close>

text \<open>
  The forward steps of the delete handler, read off the calls it made: \<open>BEGIN\<close>, the
  \<open>SELECT\<close>, the \<open>DELETE\<close>, the entry into the cleanup block (its first call is the URL
  constructor) and \<open>COMMIT\<close>.
\<close>

datatype step = OpenTransaction | LookUp | DeleteRow | CleanupAttempt | Commit

fun step_of :: "event \<Rightarrow> step option" where
  "step_of (Query SqlBegin) = Some OpenTransaction"
| "step_of (Query (SqlSelectPdf i)) = Some LookUp"
| "step_of (Query (SqlDelete i)) = Some DeleteRow"
| "step_of (NewURL u) = Some CleanupAttempt"
| "step_of (Query SqlCommit) = Some Commit"
| "step_of _ = None"

fun steps :: "event list \<Rightarrow> step list" where
  "steps [] = []"
| "steps (ev # es) = (case step_of ev of None \<Rightarrow> steps es | Some x \<Rightarrow> x # steps es)"

text \<open>
  A database call that the delete handler makes on its way raises: acquiring the client,
  \<open>BEGIN\<close>, the \<open>SELECT\<close> (also when PostgreSQL cannot read the id), then \<open>ROLLBACK\<close>
  when no row was found, and \<open>DELETE\<close> or \<open>COMMIT\<close> when one was.
\<close>

definition db_error :: "env \<Rightarrow> database \<Rightarrow> string \<Rightarrow> bool" where
  "db_error e d i =
     (raises e AtConnect \<or> raises e AtBegin \<or> raises e AtSelectPdf \<or> int4_in e i = None
      \<or> (case matching_row e d i of
            None \<Rightarrow> raises e AtRollbackNotFound
          | Some b \<Rightarrow> raises e AtDeleteRow \<or> raises e AtCommit))"

text \<open>
  The calls of the cleanup block that reach outside the process (the URL constructor is
  its first call, the remote delete its second), and everything the block can leave in the
  sequence of calls.
\<close>

fun is_cleanup_call :: "event \<Rightarrow> bool" where
  "is_cleanup_call (NewURL u) = True"
| "is_cleanup_call (StorageRemove k) = True"
| "is_cleanup_call _ = False"

definition cleanup_calls :: "event list \<Rightarrow> event list" where
  "cleanup_calls tr = filter is_cleanup_call tr"

definition outside_cleanup :: "event list \<Rightarrow> event list" where
  "outside_cleanup tr = filter (\<lambda>ev. \<not> is_cleanup_call ev \<and> ev \<noteq> ConsoleWarn) tr"

subsection \<open>Concrete inputs\<close>

text \<open>
  The values of \<open>new URL(v).pathname\<close> at the arguments the examples below use: two URLs
  of the bucket, and every other argument of the examples (such as \<open>u1\<close>) is no URL.
\<close>

definition example_pathname :: "jsval \<Rightarrow> string option" where
  "example_pathname v =
     (if v = JStr ''https://store/ebook-pdf/a.pdf'' then Some ''/ebook-pdf/a.pdf''
      else if v = JStr ''https://store/ebook-pdf/docs/ebook-pdf/a.pdf''
        then Some ''/ebook-pdf/docs/ebook-pdf/a.pdf''
      else None)"

text \<open>
  How PostgreSQL reads a text made of decimal digits only: the number, unless it is beyond
  the largest \<open>int4\<close>. The examples below use no other integer literal; every other text
  of the examples (such as \<open>abc\<close>) is none.
\<close>

definition decimal_int4 :: "string \<Rightarrow> int option" where
  "decimal_int4 t =
     (if t \<noteq> [] \<and> length (leading_digits 10 t) = length t
        \<and> int (foldl (\<lambda>acc v. acc * 10 + v) 0 (leading_digits 10 t)) \<le> 2147483647
      then Some (int (foldl (\<lambda>acc v. acc * 10 + v) 0 (leading_digits 10 t)))
      else None)"

text \<open>
  An environment in which no database call raises for a reason of its own and the store
  deletes what it is asked to.
\<close>

definition calm :: env where
  "calm = \<lparr>raises = (\<lambda>x. False), int4_in = decimal_int4, url_pathname = example_pathname,
           remove_object = (\<lambda>k. Deleted), param_text = (\<lambda>v. [])\<rparr>"

text \<open>The store reports a failure in the value it returns.\<close>

definition refusing :: env where
  "refusing = calm\<lparr>remove_object := (\<lambda>k. Refused)\<rparr>"

text \<open>The connection is lost after \<open>BEGIN\<close>: the \<open>SELECT\<close> raises, and so does \<open>ROLLBACK\<close>.\<close>

definition lost_connection :: env where
  "lost_connection = calm\<lparr>raises := (\<lambda>x. x = AtSelectPdf \<or> x = AtRollbackCatch)\<rparr>"

text \<open>A table with the one book of the specification's scenario.\<close>

definition shelf :: database where
  "shelf = \<lparr>books = [\<lparr>book_id = 1, title = Some ''A'', description = None,
                      thumbnail_base64 = Some ''x'',
                      pdf_url = Some ''https://store/ebook-pdf/a.pdf'', created_at = 0\<rparr>],
            next_id = 2, clock = 1\<rparr>"

definition visitor :: request where
  "visitor = \<lparr>session = JUndefined, xhr = False, accept = None, path = ''/api/books''\<rparr>"

definition book_a :: req_body where
  "book_a = \<lparr>b_title = JStr ''B'', b_description = JUndefined, b_thumbnail_base64 = JStr ''y'',
             b_pdf_url = JStr ''https://store/ebook-pdf/b.pdf'',
             b_old_pdf_url = JStr ''https://store/ebook-pdf/a.pdf''\<rparr>"

section \<open>Properties\<close>

subsection \<open>What the cleanup block leaves in the sequence of calls\<close>

lemma cleanup_no_release:
  "cleanup e s u = (s', ct) \<Longrightarrow> filter (\<lambda>ev. ev = Release) ct = []"
  by (auto simp: cleanup_def split: option.splits removal.splits)

lemma cleanup_sent: "cleanup e s u = (s', ct) \<Longrightarrow> sent (ct @ es) = sent es"
  by (auto simp: cleanup_def split: option.splits removal.splits)

lemma cleanup_steps:
  "cleanup e s u = (s', ct) \<Longrightarrow> steps (ct @ es) = CleanupAttempt # steps es"
  by (auto simp: cleanup_def split: option.splits removal.splits)

lemma cleanup_last: "cleanup e s u = (s', ct) \<Longrightarrow> last (ct @ ev # es) = last (ev # es)"
  by simp

lemma outside_cleanup_simps:
  "outside_cleanup [] = []"
  "outside_cleanup (xs @ ys) = outside_cleanup xs @ outside_cleanup ys"
  "outside_cleanup (ev # es) =
     (if \<not> is_cleanup_call ev \<and> ev \<noteq> ConsoleWarn then ev # outside_cleanup es
      else outside_cleanup es)"
  by (simp_all add: outside_cleanup_def)

lemma cleanup_outside: "cleanup e s u = (s', ct) \<Longrightarrow> outside_cleanup ct = []"
  by (auto simp: cleanup_def outside_cleanup_def split: option.splits removal.splits)

lemma cleanup_calls_cleanup:
  "cleanup e s u = (s', ct) \<Longrightarrow>
   cleanup_calls ct =
     NewURL u # (case url_pathname e u of None \<Rightarrow> []
                 | Some p \<Rightarrow> (case storage_key p of None \<Rightarrow> [] | Some k \<Rightarrow> [StorageRemove k]))"
  by (auto simp: cleanup_def cleanup_calls_def split: option.splits removal.splits)

lemma sql_param_cleanup_env:
  "sql_param (e\<lparr>url_pathname := u, remove_object := ro\<rparr>) v = sql_param e v"
  by (cases v) (simp_all add: sql_param_def)

lemma matching_row_cleanup_env:
  "matching_row (e\<lparr>url_pathname := u, remove_object := ro\<rparr>) d i = matching_row e d i"
  by (simp add: matching_row_def)

lemma update_raises_cleanup_env:
  "update_raises (e\<lparr>url_pathname := u, remove_object := ro\<rparr>) d i b = update_raises e d i b"
  by (simp add: update_raises_def sql_param_cleanup_env matching_row_cleanup_env)

lemma update_rows_cleanup_env:
  "update_rows (e\<lparr>url_pathname := u, remove_object := ro\<rparr>) i b rows = update_rows e i b rows"
  by (simp add: update_rows_def sql_param_cleanup_env)

lemma delete_book_cleanup_irrelevant:
  "response_of (delete_book (e\<lparr>url_pathname := u, remove_object := ro\<rparr>) d s i)
     = response_of (delete_book e d s i)
   \<and> db (delete_book (e\<lparr>url_pathname := u, remove_object := ro\<rparr>) d s i)
     = db (delete_book e d s i)
   \<and> escaped (delete_book (e\<lparr>url_pathname := u, remove_object := ro\<rparr>) d s i)
     = escaped (delete_book e d s i)
   \<and> outside_cleanup (trace (delete_book (e\<lparr>url_pathname := u, remove_object := ro\<rparr>) d s i))
     = outside_cleanup (trace (delete_book e d s i))"
  by (simp add: delete_book_def rollback_and_fail_def response_of_def cleanup_sent
      cleanup_outside outside_cleanup_simps matching_row_cleanup_env
      split: option.splits prod.splits)

lemma put_book_cleanup_irrelevant:
  "response_of (put_book (e\<lparr>url_pathname := u, remove_object := ro\<rparr>) d s i b)
     = response_of (put_book e d s i b)
   \<and> db (put_book (e\<lparr>url_pathname := u, remove_object := ro\<rparr>) d s i b)
     = db (put_book e d s i b)
   \<and> escaped (put_book (e\<lparr>url_pathname := u, remove_object := ro\<rparr>) d s i b)
     = escaped (put_book e d s i b)
   \<and> outside_cleanup (trace (put_book (e\<lparr>url_pathname := u, remove_object := ro\<rparr>) d s i b))
     = outside_cleanup (trace (put_book e d s i b))"
  by (simp add: put_book_def response_of_def cleanup_sent cleanup_outside outside_cleanup_simps
      update_raises_cleanup_env update_rows_cleanup_env split: prod.splits)

lemma delete_book_outcomes:
  "(db_error e d i \<and> (raises e AtConnect \<or> \<not> raises e AtRollbackCatch) \<longrightarrow>
      status_of (delete_book e d s i) = Some 500 \<and> db (delete_book e d s i) = d
      \<and> \<not> escaped (delete_book e d s i))
   \<and> (db_error e d i \<and> \<not> raises e AtConnect \<and> raises e AtRollbackCatch \<longrightarrow>
      status_of (delete_book e d s i) = None \<and> db (delete_book e d s i) = d
      \<and> escaped (delete_book e d s i))
   \<and> (\<not> db_error e d i \<and> matching_row e d i = None \<longrightarrow>
      status_of (delete_book e d s i) = Some 404 \<and> db (delete_book e d s i) = d
      \<and> \<not> escaped (delete_book e d s i))
   \<and> (\<not> db_error e d i \<and> matching_row e d i \<noteq> None \<longrightarrow>
      status_of (delete_book e d s i) = Some 200
      \<and> books (db (delete_book e d s i))
          = filter (\<lambda>b. Some (book_id b) \<noteq> int4_in e i) (books d)
      \<and> \<not> escaped (delete_book e d s i))"
  by (simp add: delete_book_def rollback_and_fail_def db_error_def status_of_def response_of_def
      json_def cleanup_sent split: option.splits prod.splits)

lemma delete_book_rolls_back:
  "db_error e d i \<and> \<not> raises e AtConnect \<longrightarrow>
     Query SqlRollback \<in> set (trace (delete_book e d s i))"
  by (auto simp: delete_book_def rollback_and_fail_def db_error_def
      split: option.splits prod.splits)

lemma delete_book_steps:
  "prefix (steps (trace (delete_book e d s i)))
     [OpenTransaction, LookUp, DeleteRow, CleanupAttempt, Commit]
   \<and> (\<not> db_error e d i \<and> matching_row e d i = None \<longrightarrow>
        trace (delete_book e d s i) =
          [PoolConnect, Query SqlBegin, Query (SqlSelectPdf i), Query SqlRollback,
           Send (json 404 False ''Buku tidak ditemukan''), Release])
   \<and> (\<not> db_error e d i \<and> matching_row e d i \<noteq> None \<longrightarrow>
        steps (trace (delete_book e d s i)) =
          [OpenTransaction, LookUp, DeleteRow, CleanupAttempt, Commit])"
  by (simp add: delete_book_def rollback_and_fail_def db_error_def cleanup_steps
      split: option.splits prod.splits)

lemma delete_book_release_last:
  "\<not> raises e AtConnect \<longrightarrow> last (trace (delete_book e d s i)) = Release"
  by (simp add: delete_book_def rollback_and_fail_def split: option.splits prod.splits)

lemma delete_book_absent:
  "matching_row e d i = None \<Longrightarrow>
     db (delete_book e d s i) = d \<and> Query (SqlDelete i) \<notin> set (trace (delete_book e d s i))"
  by (simp add: delete_book_def rollback_and_fail_def)

lemma delete_book_never_404:
  "int4_in e i = None \<Longrightarrow> status_of (delete_book e d s i) \<noteq> Some 404"
  by (simp add: delete_book_def rollback_and_fail_def status_of_def response_of_def json_def)

lemma removed_row_is_gone:
  "find (\<lambda>r. Some (book_id r) = k) (filter (\<lambda>b. Some (book_id b) \<noteq> k) rows) = None"
  by (induction rows) auto

lemma update_rows_absent:
  "matching_row e d i = None \<Longrightarrow> update_rows e i b (books d) = books d"
  by (auto simp: matching_row_def update_rows_def find_None_iff intro: map_idI)


lemma after_chars_plain:
  "\<forall>c \<in> set s. \<not> is_continuation c \<Longrightarrow> after_chars n s = drop n s"
  by (induction n s rule: after_chars.induct) simp_all

lemma is_continuation_ascii: "\<not> digit7 c \<Longrightarrow> \<not> is_continuation c"
  by (simp add: is_continuation_def)

subsection \<open>Delete\<close>

text \<open>
  Claim C9. Every path through the delete handler releases the client it acquired exactly
  once, as its last call: the success path, the 404 path, the paths where a database call
  raises, and the path where the error handler's own \<open>ROLLBACK\<close> raises. When acquiring
  the client fails there is nothing to release, and nothing is released.
\<close>

theorem delete_book_releases_once:
  "length (filter (\<lambda>ev. ev = Release) (trace (delete_book e d s i)))
     = (if raises e AtConnect then 0 else 1)
   \<and> (\<not> raises e AtConnect \<longrightarrow> last (trace (delete_book e d s i)) = Release)"
  by (simp add: delete_book_def rollback_and_fail_def cleanup_no_release
      split: option.splits prod.splits)

theorem delete_book_releases_once_witness:
  "length (filter (\<lambda>ev. ev = Release) (trace (delete_book calm shelf {''a.pdf''} ''1''))) = 1
   \<and> last (trace (delete_book calm shelf {''a.pdf''} ''1'')) = Release
   \<and> length (filter (\<lambda>ev. ev = Release) (trace (delete_book calm shelf {''a.pdf''} ''7''))) = 1
   \<and> last (trace (delete_book calm shelf {''a.pdf''} ''7'')) = Release
   \<and> length (filter (\<lambda>ev. ev = Release)
        (trace (delete_book lost_connection shelf {''a.pdf''} ''1''))) = 1
   \<and> last (trace (delete_book lost_connection shelf {''a.pdf''} ''1'')) = Release"
  using delete_book_releases_once [of calm shelf "{''a.pdf''}" "''1''"]
    delete_book_releases_once [of calm shelf "{''a.pdf''}" "''7''"]
    delete_book_releases_once [of lost_connection shelf "{''a.pdf''}" "''1''"]
  by (simp add: calm_def lost_connection_def)

text \<open>
  The ids the examples use, as the example environment reads them: \<open>1\<close> is the id of the
  book on the shelf, \<open>7\<close> is the id of no book, and PostgreSQL can read neither
  \<open>99999999999\<close> (beyond \<open>int4\<close>) nor \<open>abc\<close>.
\<close>

lemma example_ids:
  "int4_in calm ''1'' = Some 1" "int4_in calm ''7'' = Some 7"
  "int4_in calm ''99999999999'' = None" "int4_in calm ''abc'' = None"
  "int4_in lost_connection ''1'' = Some 1" "int4_in refusing ''1'' = Some 1"
  by (simp_all add: calm_def lost_connection_def refusing_def decimal_int4_def digit_def)

lemma example_rows:
  "matching_row calm shelf ''1'' \<noteq> None" "matching_row calm shelf ''7'' = None"
  "matching_row calm shelf ''99999999999'' = None" "matching_row calm shelf ''abc'' = None"
  "matching_row lost_connection shelf ''1'' \<noteq> None" "matching_row refusing shelf ''1'' \<noteq> None"
  by (simp_all add: matching_row_def example_ids shelf_def)

lemma example_quiet:
  "raises calm = (\<lambda>x. False)" "raises refusing = (\<lambda>x. False)"
  by (simp_all add: calm_def refusing_def)

text \<open>
  Claim C1, as stated, at an id that PostgreSQL cannot read. No row has the id
  \<open>99999999999\<close> (it is beyond \<open>int4\<close>) nor the id \<open>abc\<close>, yet the answer is not 404:
  the \<open>SELECT\<close> raises on the text of the parameter and the handler answers 500.
\<close>

theorem delete_book_unreadable_id:
  "matching_row calm shelf ''99999999999'' = None
   \<and> status_of (delete_book calm shelf {''a.pdf''} ''99999999999'') = Some 500
   \<and> matching_row calm shelf ''abc'' = None
   \<and> status_of (delete_book calm shelf {''a.pdf''} ''abc'') = Some 500"
  by (simp add: example_rows delete_book_def rollback_and_fail_def example_ids status_of_def
      response_of_def json_def example_quiet)

text \<open>
  Claim C1, amended. Delete is atomic with respect to the table. When no row has the id,
  no row is removed in any execution and the \<open>DELETE\<close> statement is never issued; the
  handler rolls the transaction back and answers 404 when PostgreSQL can read the id and
  none of the database calls on the way raises, and it does not answer 404 when
  PostgreSQL cannot read the id. When a row has the id and none of the database calls
  raises, the answer is 200 and the row is gone from the table, however the cleanup goes:
  the environment's URL parser and object store are arbitrary here. In every execution
  the response and the table are the same for any two behaviours of the URL parser and
  the object store.
\<close>

theorem delete_book_atomic:
  "(matching_row e d i = None \<longrightarrow>
      db (delete_book e d s i) = d
      \<and> Query (SqlDelete i) \<notin> set (trace (delete_book e d s i))
      \<and> (\<not> db_error e d i \<longrightarrow>
           trace (delete_book e d s i) =
             [PoolConnect, Query SqlBegin, Query (SqlSelectPdf i), Query SqlRollback,
              Send (json 404 False ''Buku tidak ditemukan''), Release])
      \<and> (int4_in e i = None \<longrightarrow> status_of (delete_book e d s i) \<noteq> Some 404))
   \<and> (matching_row e d i \<noteq> None \<and> \<not> db_error e d i \<longrightarrow>
        status_of (delete_book e d s i) = Some 200
        \<and> books (db (delete_book e d s i))
            = filter (\<lambda>b. Some (book_id b) \<noteq> int4_in e i) (books d)
        \<and> matching_row e (db (delete_book e d s i)) i = None)
   \<and> response_of (delete_book (e\<lparr>url_pathname := u, remove_object := ro\<rparr>) d s i)
        = response_of (delete_book e d s i)
   \<and> db (delete_book (e\<lparr>url_pathname := u, remove_object := ro\<rparr>) d s i)
        = db (delete_book e d s i)"
proof -
  have gone: "books (db (delete_book e d s i))
        = filter (\<lambda>b. Some (book_id b) \<noteq> int4_in e i) (books d) \<Longrightarrow>
      matching_row e (db (delete_book e d s i)) i = None"
    by (simp add: matching_row_def removed_row_is_gone)
  show ?thesis
    using gone delete_book_absent [of e d i s] delete_book_never_404 [of e i d s]
      delete_book_outcomes [of e d i s] delete_book_steps [of e d s i]
      delete_book_cleanup_irrelevant [where e = e and u = u and ro = ro and d = d and s = s
        and i = i]
    by simp
qed

theorem delete_book_atomic_witness:
  "db (delete_book calm shelf {''a.pdf''} ''7'') = shelf
   \<and> status_of (delete_book calm shelf {''a.pdf''} ''7'') = Some 404
   \<and> db (delete_book calm shelf {''a.pdf''} ''abc'') = shelf
   \<and> status_of (delete_book (calm\<lparr>remove_object := (\<lambda>k. Threw)\<rparr>) shelf {''a.pdf''} ''1'')
       = Some 200
   \<and> books (db (delete_book (calm\<lparr>remove_object := (\<lambda>k. Threw)\<rparr>) shelf {''a.pdf''} ''1''))
       = []
   \<and> store (delete_book (calm\<lparr>remove_object := (\<lambda>k. Threw)\<rparr>) shelf {''a.pdf''} ''1'')
       = {''a.pdf''}"
proof -
  let ?failing = "calm\<lparr>remove_object := (\<lambda>k. Threw)\<rparr>"
  have one: "int4_in ?failing ''1'' = Some 1" "matching_row ?failing shelf ''1'' \<noteq> None"
    by (simp_all add: matching_row_def example_ids shelf_def)
  have quiet: "\<not> db_error calm shelf ''7''" "\<not> db_error ?failing shelf ''1''"
    using one(2)
    by (auto simp: db_error_def example_quiet example_ids example_rows split: option.splits)
  have kept: "store (delete_book ?failing shelf {''a.pdf''} ''1'') = {''a.pdf''}"
    using example_ids(1)
    by (simp add: delete_book_def matching_row_def shelf_def cleanup_def column_value_def
        calm_def example_pathname_def storage_key_def)
  from delete_book_atomic [of calm shelf "''7''" "{''a.pdf''}"] example_rows(2) quiet(1)
  have "db (delete_book calm shelf {''a.pdf''} ''7'') = shelf
      \<and> status_of (delete_book calm shelf {''a.pdf''} ''7'') = Some 404"
    by (simp add: status_of_def response_of_def json_def)
  moreover from delete_book_atomic [of calm shelf "''abc''" "{''a.pdf''}"] example_rows(4)
  have "db (delete_book calm shelf {''a.pdf''} ''abc'') = shelf"
    by simp
  moreover from delete_book_atomic [of ?failing shelf "''1''" "{''a.pdf''}"] one quiet(2)
  have "status_of (delete_book ?failing shelf {''a.pdf''} ''1'') = Some 200
      \<and> books (db (delete_book ?failing shelf {''a.pdf''} ''1'')) = []"
    by (simp add: shelf_def)
  ultimately show ?thesis using kept by simp
qed

text \<open>
  Claim C2, at a lost connection: the \<open>SELECT\<close> raises, which is a database error before
  the commit, and the \<open>ROLLBACK\<close> that the \<open>catch\<close> block awaits raises as well. The
  statement that sends the 500 comes after that \<open>await\<close> and is skipped: the handler sends
  no response at all, neither 404 nor 200 nor 500, and the exception leaves it.
\<close>

theorem delete_book_lost_connection:
  "db_error lost_connection shelf ''1''
   \<and> status_of (delete_book lost_connection shelf {''a.pdf''} ''1'') = None
   \<and> escaped (delete_book lost_connection shelf {''a.pdf''} ''1'')
   \<and> trace (delete_book lost_connection shelf {''a.pdf''} ''1'') =
       [PoolConnect, Query SqlBegin, Query (SqlSelectPdf ''1''), Query SqlRollback, Release]"
  by (simp add: delete_book_def rollback_and_fail_def db_error_def lost_connection_def calm_def
      status_of_def response_of_def)

text \<open>
  The runs of the delete handler. In every execution the forward steps are an initial
  part of: open the transaction, look the row up, delete the row, attempt the cleanup,
  commit; so the commit comes after the cleanup attempt. Whenever a client was acquired,
  its release is the last call. The handler ends in exactly one of four ways:
  \<^item> no database call raises and no row has the id: 404, rolled back, table unchanged;
  \<^item> no database call raises and a row has the id: all five steps, 200, the row is gone;
  \<^item> a database call on the way raises and the error handler completes (no client was
    acquired, or its \<open>ROLLBACK\<close> succeeds): 500, table unchanged;
    \<open>ROLLBACK\<close> is issued whenever a client had been acquired;
  \<^item> a database call on the way raises and the error handler's \<open>ROLLBACK\<close> raises too:
    the exception leaves the handler, no response is sent, table unchanged.
  The status never depends on how the cleanup went.
\<close>

theorem delete_book_state_machine:
  "prefix (steps (trace (delete_book e d s i)))
     [OpenTransaction, LookUp, DeleteRow, CleanupAttempt, Commit]
   \<and> (\<not> raises e AtConnect \<longrightarrow> last (trace (delete_book e d s i)) = Release)
   \<and> (\<not> db_error e d i \<and> matching_row e d i = None \<longrightarrow>
        status_of (delete_book e d s i) = Some 404 \<and> db (delete_book e d s i) = d
        \<and> \<not> escaped (delete_book e d s i)
        \<and> trace (delete_book e d s i) =
            [PoolConnect, Query SqlBegin, Query (SqlSelectPdf i), Query SqlRollback,
             Send (json 404 False ''Buku tidak ditemukan''), Release])
   \<and> (\<not> db_error e d i \<and> matching_row e d i \<noteq> None \<longrightarrow>
        status_of (delete_book e d s i) = Some 200 \<and> \<not> escaped (delete_book e d s i)
        \<and> steps (trace (delete_book e d s i)) =
            [OpenTransaction, LookUp, DeleteRow, CleanupAttempt, Commit]
        \<and> books (db (delete_book e d s i))
            = filter (\<lambda>b. Some (book_id b) \<noteq> int4_in e i) (books d))
   \<and> (db_error e d i \<and> (raises e AtConnect \<or> \<not> raises e AtRollbackCatch) \<longrightarrow>
        status_of (delete_book e d s i) = Some 500 \<and> db (delete_book e d s i) = d
        \<and> \<not> escaped (delete_book e d s i))
   \<and> (db_error e d i \<and> \<not> raises e AtConnect \<and> raises e AtRollbackCatch \<longrightarrow>
        status_of (delete_book e d s i) = None \<and> db (delete_book e d s i) = d
        \<and> escaped (delete_book e d s i))
   \<and> (db_error e d i \<and> \<not> raises e AtConnect \<longrightarrow>
        Query SqlRollback \<in> set (trace (delete_book e d s i)))
   \<and> status_of (delete_book (e\<lparr>url_pathname := u, remove_object := ro\<rparr>) d s i)
        = status_of (delete_book e d s i)"
  using delete_book_outcomes [of e d i s] delete_book_steps [of e d s i]
    delete_book_rolls_back [of e d i s] delete_book_release_last [of e d s i]
    delete_book_cleanup_irrelevant [where e = e and u = u and ro = ro and d = d and s = s
      and i = i]
  by (simp add: status_of_def)

theorem delete_book_state_machine_witness:
  "steps (trace (delete_book calm shelf {''a.pdf''} ''1'')) =
     [OpenTransaction, LookUp, DeleteRow, CleanupAttempt, Commit]
   \<and> status_of (delete_book calm shelf {''a.pdf''} ''1'') = Some 200
   \<and> status_of (delete_book calm shelf {''a.pdf''} ''7'') = Some 404
   \<and> status_of (delete_book (calm\<lparr>raises := (\<lambda>x. x = AtCommit)\<rparr>) shelf {''a.pdf''} ''1'')
       = Some 500
   \<and> db (delete_book (calm\<lparr>raises := (\<lambda>x. x = AtCommit)\<rparr>) shelf {''a.pdf''} ''1'') = shelf
   \<and> last (trace (delete_book lost_connection shelf {''a.pdf''} ''1'')) = Release
   \<and> db (delete_book lost_connection shelf {''a.pdf''} ''1'') = shelf"
proof -
  let ?late = "calm\<lparr>raises := (\<lambda>x. x = AtCommit)\<rparr>"
  have late_row: "matching_row ?late shelf ''1'' \<noteq> None"
    by (simp add: matching_row_def example_ids shelf_def)
  have quiet: "\<not> db_error calm shelf ''1''" "\<not> db_error calm shelf ''7''"
    using example_rows(1)
    by (auto simp: db_error_def example_quiet example_ids example_rows(2) split: option.splits)
  have failing: "db_error ?late shelf ''1''" "\<not> raises ?late AtRollbackCatch"
    "db_error lost_connection shelf ''1''" "\<not> raises lost_connection AtConnect"
    "raises lost_connection AtRollbackCatch"
    using late_row
    by (auto simp: db_error_def lost_connection_def example_ids split: option.splits)
  from delete_book_state_machine [of calm shelf "{''a.pdf''}" "''1''"] example_rows(1) quiet(1)
  have "steps (trace (delete_book calm shelf {''a.pdf''} ''1'')) =
      [OpenTransaction, LookUp, DeleteRow, CleanupAttempt, Commit]
      \<and> status_of (delete_book calm shelf {''a.pdf''} ''1'') = Some 200"
    by simp
  moreover from delete_book_state_machine [of calm shelf "{''a.pdf''}" "''7''"]
    example_rows(2) quiet(2)
  have "status_of (delete_book calm shelf {''a.pdf''} ''7'') = Some 404"
    by simp
  moreover from delete_book_state_machine [of ?late shelf "{''a.pdf''}" "''1''"] failing(1,2)
  have "status_of (delete_book ?late shelf {''a.pdf''} ''1'') = Some 500
      \<and> db (delete_book ?late shelf {''a.pdf''} ''1'') = shelf"
    by simp
  moreover from delete_book_state_machine [of lost_connection shelf "{''a.pdf''}" "''1''"]
    failing(3,4,5)
  have "last (trace (delete_book lost_connection shelf {''a.pdf''} ''1'')) = Release
      \<and> db (delete_book lost_connection shelf {''a.pdf''} ''1'') = shelf"
    by simp
  ultimately show ?thesis by simp
qed

subsection \<open>The cleanup block inside update and delete\<close>

text \<open>
  Claim C3, at a remote delete that fails and says so in the value it returns. The
  handler never reads what \<open>remove\<close> returns: the object stays in the bucket, the delete
  handler answers 200 as after a successful cleanup, and no call of \<open>console.warn\<close> or
  \<open>console.error\<close> is made. The failure is not logged.
\<close>

theorem cleanup_refused_not_logged:
  "cleanup refusing {''a.pdf''} (JStr ''https://store/ebook-pdf/a.pdf'')
     = ({''a.pdf''}, [NewURL (JStr ''https://store/ebook-pdf/a.pdf''), StorageRemove ''a.pdf''])
   \<and> trace (delete_book refusing shelf {''a.pdf''} ''1'') =
       [PoolConnect, Query SqlBegin, Query (SqlSelectPdf ''1''), Query (SqlDelete ''1''),
        NewURL (JStr ''https://store/ebook-pdf/a.pdf''), StorageRemove ''a.pdf'',
        Query SqlCommit, Send (json 200 True ''Buku berhasil dihapus''), Release]
   \<and> store (delete_book refusing shelf {''a.pdf''} ''1'') = {''a.pdf''}
   \<and> trace (put_book refusing shelf {''a.pdf''} ''1'' book_a) =
       [Query (SqlUpdate ''1''), NewURL (JStr ''https://store/ebook-pdf/a.pdf''),
        StorageRemove ''a.pdf'', Send (json 200 True ''Buku berhasil diperbarui'')]"
proof -
  have block: "cleanup refusing {''a.pdf''} (JStr ''https://store/ebook-pdf/a.pdf'')
      = ({''a.pdf''}, [NewURL (JStr ''https://store/ebook-pdf/a.pdf''), StorageRemove ''a.pdf''])"
    by (simp add: cleanup_def refusing_def calm_def example_pathname_def storage_key_def)
  have row: "matching_row refusing shelf ''1''
      = Some \<lparr>book_id = 1, title = Some ''A'', description = None, thumbnail_base64 = Some ''x'',
              pdf_url = Some ''https://store/ebook-pdf/a.pdf'', created_at = 0\<rparr>"
    by (simp add: matching_row_def example_ids shelf_def)
  have quiet: "raises refusing = (\<lambda>x. False)"
    by (simp add: refusing_def calm_def)
  have del: "delete_book refusing shelf {''a.pdf''} ''1'' =
      \<lparr>db = shelf\<lparr>books := filter (\<lambda>b. Some (book_id b) \<noteq> int4_in refusing ''1'') (books shelf)\<rparr>,
       store = {''a.pdf''},
       trace = [PoolConnect, Query SqlBegin, Query (SqlSelectPdf ''1''), Query (SqlDelete ''1''),
                NewURL (JStr ''https://store/ebook-pdf/a.pdf''), StorageRemove ''a.pdf'',
                Query SqlCommit, Send (json 200 True ''Buku berhasil dihapus''), Release],
       escaped = False\<rparr>"
    by (simp add: delete_book_def quiet example_ids row column_value_def block)
  have fits: "after_chars 255 ''B'' = []" "after_chars 1024 ''https://store/ebook-pdf/b.pdf'' = []"
    by (simp_all add: after_chars_plain is_continuation_def)
  have "\<not> update_raises refusing shelf ''1'' book_a"
    by (simp add: update_raises_def quiet example_ids book_a_def sql_param_def varchar_def fits)
  then have "trace (put_book refusing shelf {''a.pdf''} ''1'' book_a) =
      [Query (SqlUpdate ''1''), NewURL (JStr ''https://store/ebook-pdf/a.pdf''),
       StorageRemove ''a.pdf'', Send (json 200 True ''Buku berhasil diperbarui'')]"
    using block by (simp add: put_book_def book_a_def)
  with block del show ?thesis by simp
qed

text \<open>
  Nothing leaves the cleanup block. Whatever the URL parser returns (a path, or an
  exception for an unparseable string) and however the object store answers (deleted,
  an error result, an exception), the enclosing handler sends the same response, leaves
  the same table, and lets an exception escape in exactly the same executions; its calls
  outside the block are the same. This holds for the delete and the update handler, in
  every execution. The block itself only calls the URL constructor, the store and
  \<open>console.warn\<close>, and never adds an object to the bucket; an unparseable URL and an
  exception of the store end in \<open>console.warn\<close> with the bucket as it was.
\<close>

theorem cleanup_never_propagates:
  "response_of (delete_book (e\<lparr>url_pathname := u, remove_object := ro\<rparr>) d s i)
     = response_of (delete_book e d s i)
   \<and> db (delete_book (e\<lparr>url_pathname := u, remove_object := ro\<rparr>) d s i)
     = db (delete_book e d s i)
   \<and> escaped (delete_book (e\<lparr>url_pathname := u, remove_object := ro\<rparr>) d s i)
     = escaped (delete_book e d s i)
   \<and> outside_cleanup (trace (delete_book (e\<lparr>url_pathname := u, remove_object := ro\<rparr>) d s i))
     = outside_cleanup (trace (delete_book e d s i))
   \<and> response_of (put_book (e\<lparr>url_pathname := u, remove_object := ro\<rparr>) d s i b)
     = response_of (put_book e d s i b)
   \<and> db (put_book (e\<lparr>url_pathname := u, remove_object := ro\<rparr>) d s i b)
     = db (put_book e d s i b)
   \<and> escaped (put_book (e\<lparr>url_pathname := u, remove_object := ro\<rparr>) d s i b)
     = escaped (put_book e d s i b)
   \<and> outside_cleanup (trace (put_book (e\<lparr>url_pathname := u, remove_object := ro\<rparr>) d s i b))
     = outside_cleanup (trace (put_book e d s i b))
   \<and> outside_cleanup (snd (cleanup e s v)) = []
   \<and> fst (cleanup e s v) \<subseteq> s
   \<and> (url_pathname e v = None \<longrightarrow> cleanup e s v = (s, [NewURL v, ConsoleWarn]))
   \<and> (url_pathname e v = Some p \<and> storage_key p = Some k \<and> remove_object e k = Threw \<longrightarrow>
        cleanup e s v = (s, [NewURL v, StorageRemove k, ConsoleWarn]))"
proof -
  have block: "outside_cleanup (snd (cleanup e s v)) = [] \<and> fst (cleanup e s v) \<subseteq> s
      \<and> (url_pathname e v = None \<longrightarrow> cleanup e s v = (s, [NewURL v, ConsoleWarn]))
      \<and> (url_pathname e v = Some p \<and> storage_key p = Some k \<and> remove_object e k = Threw \<longrightarrow>
           cleanup e s v = (s, [NewURL v, StorageRemove k, ConsoleWarn]))"
    by (auto simp: cleanup_def outside_cleanup_def split: option.splits removal.splits)
  show ?thesis
    using block
      delete_book_cleanup_irrelevant [where e = e and u = u and ro = ro and d = d and s = s
        and i = i]
      put_book_cleanup_irrelevant [where e = e and u = u and ro = ro and d = d and s = s
        and i = i and b = b]
    by simp
qed

theorem cleanup_never_propagates_witness:
  "response_of (delete_book (calm\<lparr>url_pathname := (\<lambda>v. None), remove_object := (\<lambda>k. Threw)\<rparr>)
       shelf {''a.pdf''} ''1'')
     = response_of (delete_book calm shelf {''a.pdf''} ''1'')
   \<and> db (delete_book (calm\<lparr>url_pathname := (\<lambda>v. None), remove_object := (\<lambda>k. Threw)\<rparr>)
       shelf {''a.pdf''} ''1'')
     = db (delete_book calm shelf {''a.pdf''} ''1'')
   \<and> response_of (put_book (calm\<lparr>url_pathname := example_pathname, remove_object := (\<lambda>k. Refused)\<rparr>)
       shelf {''a.pdf''} ''1'' book_a)
     = response_of (put_book calm shelf {''a.pdf''} ''1'' book_a)
   \<and> cleanup (calm\<lparr>url_pathname := (\<lambda>v. None)\<rparr>) {''a.pdf''} (JStr ''u1'')
     = ({''a.pdf''}, [NewURL (JStr ''u1''), ConsoleWarn])"
proof -
  have "url_pathname (calm\<lparr>url_pathname := (\<lambda>v. None)\<rparr>) (JStr ''u1'') = None" by simp
  with cleanup_never_propagates [where e = calm and u = "\<lambda>v. None" and ro = "\<lambda>k. Threw"
      and d = shelf and s = "{''a.pdf''}" and i = "''1''" and b = book_a]
    cleanup_never_propagates [where e = calm and u = example_pathname and ro = "\<lambda>k. Refused"
      and d = shelf and s = "{''a.pdf''}" and i = "''1''" and b = book_a]
    cleanup_never_propagates [where e = "calm\<lparr>url_pathname := (\<lambda>v. None)\<rparr>" and v = "JStr ''u1''"
      and s = "{''a.pdf''}"]
  show ?thesis by simp
qed

subsection \<open>Update\<close>

lemma varchar_fits:
  "\<forall>c \<in> set t. \<not> is_continuation c \<Longrightarrow> length t \<le> n \<Longrightarrow> varchar n (Some t) = Some (Some t)"
  by (simp add: varchar_def after_chars_plain)

lemma example_body:
  "b_title book_a = JStr ''B''" "b_description book_a = JUndefined"
  "b_thumbnail_base64 book_a = JStr ''y''"
  "b_pdf_url book_a = JStr ''https://store/ebook-pdf/b.pdf''"
  "b_old_pdf_url book_a = JStr ''https://store/ebook-pdf/a.pdf''"
  "sql_param e (JStr t) = Some t" "sql_param e JUndefined = None"
  "varchar 255 (Some ''B'') = Some (Some ''B'')"
  "varchar 1024 (Some ''https://store/ebook-pdf/b.pdf'')
     = Some (Some ''https://store/ebook-pdf/b.pdf'')"
  by (simp_all add: book_a_def sql_param_def varchar_fits is_continuation_def)

lemma example_url:
  "url_pathname calm (JStr ''https://store/ebook-pdf/a.pdf'') = Some ''/ebook-pdf/a.pdf''"
  "storage_key ''/ebook-pdf/a.pdf'' = Some ''a.pdf''"
  "cleanup calm {''a.pdf''} (JStr ''https://store/ebook-pdf/a.pdf'')
     = ({}, [NewURL (JStr ''https://store/ebook-pdf/a.pdf''), StorageRemove ''a.pdf''])"
  by (simp_all add: cleanup_def calm_def example_pathname_def storage_key_def)

lemma put_book_trace:
  "\<not> update_raises e d i b \<Longrightarrow>
     trace (put_book e d s i b) =
       Query (SqlUpdate i) #
         (if truthy (b_old_pdf_url b) \<and> \<not> strict_eq (b_old_pdf_url b) (b_pdf_url b)
          then snd (cleanup e s (b_old_pdf_url b)) else [])
         @ [Send (json 200 True ''Buku berhasil diperbarui'')]
     \<and> store (put_book e d s i b) =
         (if truthy (b_old_pdf_url b) \<and> \<not> strict_eq (b_old_pdf_url b) (b_pdf_url b)
          then fst (cleanup e s (b_old_pdf_url b)) else s)
     \<and> db (put_book e d s i b) = d\<lparr>books := update_rows e i b (books d)\<rparr>
     \<and> status_of (put_book e d s i b) = Some 200"
  by (simp add: put_book_def status_of_def response_of_def json_def cleanup_sent
      split: prod.splits)

lemma put_book_fails:
  "update_raises e d i b \<Longrightarrow>
     trace (put_book e d s i b) =
       [Query (SqlUpdate i), ConsoleError, Send \<lparr>status = 500, payload = Ack False ErrMessage\<rparr>]
     \<and> store (put_book e d s i b) = s \<and> db (put_book e d s i b) = d
     \<and> status_of (put_book e d s i b) = Some 500"
  by (simp add: put_book_def status_of_def response_of_def)

lemma put_book_calls:
  "cleanup_calls (trace (put_book e d s i b)) =
     (if update_raises e d i b
         \<or> \<not> (truthy (b_old_pdf_url b) \<and> \<not> strict_eq (b_old_pdf_url b) (b_pdf_url b))
      then []
      else NewURL (b_old_pdf_url b) #
             (case url_pathname e (b_old_pdf_url b) of None \<Rightarrow> []
              | Some p \<Rightarrow> (case storage_key p of None \<Rightarrow> [] | Some k \<Rightarrow> [StorageRemove k])))"
proof -
  obtain s' ct where c: "cleanup e s (b_old_pdf_url b) = (s', ct)"
    by (cases "cleanup e s (b_old_pdf_url b)")
  have "cleanup_calls (Query (SqlUpdate i) # ct @ [Send (json 200 True ''Buku berhasil diperbarui'')])
      = cleanup_calls ct"
    by (simp add: cleanup_calls_def)
  with cleanup_calls_cleanup [OF c] c show ?thesis
    by (simp add: put_book_def) (simp add: cleanup_calls_def)
qed

text \<open>
  Claim C4, as stated, at an update that leaves the title out. The row exists, the old URL
  is present and differs from the new one, and no cleanup attempt is made: \<open>title\<close> is
  \<open>NOT NULL\<close>, the \<open>UPDATE\<close> raises, and the handler answers 500 before it reaches the
  guard. The file stays in the bucket.
\<close>

theorem put_book_missing_title:
  "matching_row calm shelf ''1''
     = Some \<lparr>book_id = 1, title = Some ''A'', description = None, thumbnail_base64 = Some ''x'',
             pdf_url = Some ''https://store/ebook-pdf/a.pdf'', created_at = 0\<rparr>
   \<and> truthy (b_old_pdf_url (book_a\<lparr>b_title := JUndefined\<rparr>))
   \<and> \<not> strict_eq (b_old_pdf_url (book_a\<lparr>b_title := JUndefined\<rparr>))
         (b_pdf_url (book_a\<lparr>b_title := JUndefined\<rparr>))
   \<and> cleanup_calls (trace (put_book calm shelf {''a.pdf''} ''1'' (book_a\<lparr>b_title := JUndefined\<rparr>)))
       = []
   \<and> status_of (put_book calm shelf {''a.pdf''} ''1'' (book_a\<lparr>b_title := JUndefined\<rparr>))
       = Some 500
   \<and> store (put_book calm shelf {''a.pdf''} ''1'' (book_a\<lparr>b_title := JUndefined\<rparr>))
       = {''a.pdf''}"
proof -
  have row: "matching_row calm shelf ''1''
      = Some \<lparr>book_id = 1, title = Some ''A'', description = None, thumbnail_base64 = Some ''x'',
              pdf_url = Some ''https://store/ebook-pdf/a.pdf'', created_at = 0\<rparr>"
    by (simp add: matching_row_def example_ids shelf_def)
  then have bad: "update_raises calm shelf ''1'' (book_a\<lparr>b_title := JUndefined\<rparr>)"
    by (simp add: update_raises_def sql_param_def)
  have guard: "truthy (b_old_pdf_url (book_a\<lparr>b_title := JUndefined\<rparr>))"
    "\<not> strict_eq (b_old_pdf_url (book_a\<lparr>b_title := JUndefined\<rparr>))
         (b_pdf_url (book_a\<lparr>b_title := JUndefined\<rparr>))"
    by (simp_all add: book_a_def)
  have none: "cleanup_calls (trace (put_book calm shelf {''a.pdf''} ''1''
      (book_a\<lparr>b_title := JUndefined\<rparr>))) = []"
    using bad by (simp add: put_book_calls)
  from put_book_fails [OF bad, of "{''a.pdf''}"] row guard none show ?thesis
    by simp
qed

text \<open>
  Claim C4, amended. In the update handler the cleanup block is entered under the guard
  \<open>old_pdf_url && old_pdf_url !== pdf_url\<close>, after the \<open>UPDATE\<close> statement. When
  \<open>old_pdf_url\<close> is absent (falsy) or equal to \<open>pdf_url\<close>, the handler makes no cleanup
  call in any execution. When it is present and differs and the \<open>UPDATE\<close> statement
  succeeds, the handler issues the statement, runs the block exactly once on the old URL
  and answers 200: the only remote delete the block can issue is for the key read from
  the old URL, and the bucket is what the block leaves. When the \<open>UPDATE\<close> statement
  raises (an id PostgreSQL cannot read, a title or URL too long for its column, a missing
  title or URL on a row that exists, or a failure of the database itself), the handler
  makes no cleanup call and answers 500, with the table and the bucket unchanged.
\<close>

theorem put_book_cleanup_guard:
  "(\<not> (truthy (b_old_pdf_url b) \<and> \<not> strict_eq (b_old_pdf_url b) (b_pdf_url b)) \<longrightarrow>
      cleanup_calls (trace (put_book e d s i b)) = [])
   \<and> (truthy (b_old_pdf_url b) \<and> \<not> strict_eq (b_old_pdf_url b) (b_pdf_url b)
        \<and> \<not> update_raises e d i b \<longrightarrow>
      trace (put_book e d s i b) =
        Query (SqlUpdate i) # snd (cleanup e s (b_old_pdf_url b))
          @ [Send (json 200 True ''Buku berhasil diperbarui'')]
      \<and> store (put_book e d s i b) = fst (cleanup e s (b_old_pdf_url b))
      \<and> cleanup_calls (trace (put_book e d s i b)) =
          NewURL (b_old_pdf_url b) #
            (case url_pathname e (b_old_pdf_url b) of None \<Rightarrow> []
             | Some p \<Rightarrow> (case storage_key p of None \<Rightarrow> [] | Some k \<Rightarrow> [StorageRemove k])))
   \<and> (update_raises e d i b \<longrightarrow>
        cleanup_calls (trace (put_book e d s i b)) = []
        \<and> status_of (put_book e d s i b) = Some 500
        \<and> store (put_book e d s i b) = s \<and> db (put_book e d s i b) = d)
   \<and> (update_raises e d i b \<longleftrightarrow>
        raises e AtUpdate \<or> int4_in e i = None
        \<or> varchar 255 (sql_param e (b_title b)) = None
        \<or> varchar 1024 (sql_param e (b_pdf_url b)) = None
        \<or> (matching_row e d i \<noteq> None
            \<and> (sql_param e (b_title b) = None \<or> sql_param e (b_pdf_url b) = None)))"
proof -
  have calls: "(\<not> (truthy (b_old_pdf_url b) \<and> \<not> strict_eq (b_old_pdf_url b) (b_pdf_url b)) \<longrightarrow>
      cleanup_calls (trace (put_book e d s i b)) = [])
    \<and> (truthy (b_old_pdf_url b) \<and> \<not> strict_eq (b_old_pdf_url b) (b_pdf_url b)
        \<and> \<not> update_raises e d i b \<longrightarrow>
      cleanup_calls (trace (put_book e d s i b)) =
          NewURL (b_old_pdf_url b) #
            (case url_pathname e (b_old_pdf_url b) of None \<Rightarrow> []
             | Some p \<Rightarrow> (case storage_key p of None \<Rightarrow> [] | Some k \<Rightarrow> [StorageRemove k])))
    \<and> (update_raises e d i b \<longrightarrow> cleanup_calls (trace (put_book e d s i b)) = [])"
    by (simp add: put_book_calls)
  have runs: "truthy (b_old_pdf_url b) \<and> \<not> strict_eq (b_old_pdf_url b) (b_pdf_url b)
        \<and> \<not> update_raises e d i b \<longrightarrow>
      trace (put_book e d s i b) =
        Query (SqlUpdate i) # snd (cleanup e s (b_old_pdf_url b))
          @ [Send (json 200 True ''Buku berhasil diperbarui'')]
      \<and> store (put_book e d s i b) = fst (cleanup e s (b_old_pdf_url b))"
    using put_book_trace [of e d i b s] by simp
  have fails: "update_raises e d i b \<longrightarrow>
        status_of (put_book e d s i b) = Some 500
        \<and> store (put_book e d s i b) = s \<and> db (put_book e d s i b) = d"
    using put_book_fails [of e d i b s] by simp
  have reasons: "update_raises e d i b \<longleftrightarrow>
        raises e AtUpdate \<or> int4_in e i = None
        \<or> varchar 255 (sql_param e (b_title b)) = None
        \<or> varchar 1024 (sql_param e (b_pdf_url b)) = None
        \<or> (matching_row e d i \<noteq> None
            \<and> (sql_param e (b_title b) = None \<or> sql_param e (b_pdf_url b) = None))"
    by (simp add: update_raises_def)
  from calls runs fails reasons show ?thesis by blast
qed

theorem put_book_cleanup_guard_witness:
  "cleanup_calls (trace (put_book calm shelf {''a.pdf''} ''1'' book_a)) =
     [NewURL (JStr ''https://store/ebook-pdf/a.pdf''), StorageRemove ''a.pdf'']
   \<and> trace (put_book calm shelf {''a.pdf''} ''1'' book_a) =
       [Query (SqlUpdate ''1''), NewURL (JStr ''https://store/ebook-pdf/a.pdf''),
        StorageRemove ''a.pdf'', Send (json 200 True ''Buku berhasil diperbarui'')]
   \<and> store (put_book calm shelf {''a.pdf''} ''1'' book_a) = {}
   \<and> cleanup_calls (trace (put_book calm shelf {''a.pdf''} ''1''
        (book_a\<lparr>b_old_pdf_url := JStr ''https://store/ebook-pdf/b.pdf''\<rparr>))) = []
   \<and> cleanup_calls (trace (put_book calm shelf {''a.pdf''} ''1''
        (book_a\<lparr>b_old_pdf_url := JUndefined\<rparr>))) = []
   \<and> cleanup_calls (trace (put_book calm shelf {''a.pdf''} ''abc'' book_a)) = []
   \<and> status_of (put_book calm shelf {''a.pdf''} ''abc'' book_a) = Some 500"
proof -
  have ok: "\<not> update_raises calm shelf ''1'' book_a"
    by (simp add: update_raises_def example_quiet example_ids example_body)
  have bad: "update_raises calm shelf ''abc'' book_a"
    by (simp add: update_raises_def example_ids)
  have same: "strict_eq (b_old_pdf_url (book_a\<lparr>b_old_pdf_url := JStr ''https://store/ebook-pdf/b.pdf''\<rparr>))
      (b_pdf_url (book_a\<lparr>b_old_pdf_url := JStr ''https://store/ebook-pdf/b.pdf''\<rparr>))"
    "\<not> truthy (b_old_pdf_url (book_a\<lparr>b_old_pdf_url := JUndefined\<rparr>))"
    by (simp_all add: book_a_def)
  from put_book_cleanup_guard [of book_a calm shelf "{''a.pdf''}" "''1''"] ok
  have "cleanup_calls (trace (put_book calm shelf {''a.pdf''} ''1'' book_a)) =
      [NewURL (JStr ''https://store/ebook-pdf/a.pdf''), StorageRemove ''a.pdf'']
    \<and> trace (put_book calm shelf {''a.pdf''} ''1'' book_a) =
       [Query (SqlUpdate ''1''), NewURL (JStr ''https://store/ebook-pdf/a.pdf''),
        StorageRemove ''a.pdf'', Send (json 200 True ''Buku berhasil diperbarui'')]
    \<and> store (put_book calm shelf {''a.pdf''} ''1'' book_a) = {}"
    by (simp add: example_body example_url cleanup_calls_def)
  moreover
  from put_book_cleanup_guard [of "book_a\<lparr>b_old_pdf_url := JStr ''https://store/ebook-pdf/b.pdf''\<rparr>"
      calm shelf "{''a.pdf''}" "''1''"] same(1)
  have "cleanup_calls (trace (put_book calm shelf {''a.pdf''} ''1''
        (book_a\<lparr>b_old_pdf_url := JStr ''https://store/ebook-pdf/b.pdf''\<rparr>))) = []"
    by simp
  moreover
  from put_book_cleanup_guard [of "book_a\<lparr>b_old_pdf_url := JUndefined\<rparr>" calm shelf
      "{''a.pdf''}" "''1''"] same(2)
  have "cleanup_calls (trace (put_book calm shelf {''a.pdf''} ''1''
        (book_a\<lparr>b_old_pdf_url := JUndefined\<rparr>))) = []"
    by simp
  moreover
  from put_book_cleanup_guard [of book_a calm shelf "{''a.pdf''}" "''abc''"] bad
  have "cleanup_calls (trace (put_book calm shelf {''a.pdf''} ''abc'' book_a)) = []
    \<and> status_of (put_book calm shelf {''a.pdf''} ''abc'' book_a) = Some 500"
    by simp
  ultimately show ?thesis by blast
qed

text \<open>
  Claim C10, as stated, at an id that PostgreSQL cannot read. No row has the id \<open>abc\<close>,
  and the handler does not answer 200: the \<open>UPDATE\<close> raises on the text of the parameter,
  the answer is 500, and the cleanup is not attempted although \<open>old_pdf_url\<close> is present
  and differs from \<open>pdf_url\<close>.
\<close>

theorem put_book_unreadable_id:
  "matching_row calm shelf ''abc'' = None
   \<and> truthy (b_old_pdf_url book_a)
   \<and> \<not> strict_eq (b_old_pdf_url book_a) (b_pdf_url book_a)
   \<and> status_of (put_book calm shelf {''a.pdf''} ''abc'' book_a) = Some 500
   \<and> cleanup_calls (trace (put_book calm shelf {''a.pdf''} ''abc'' book_a)) = []
   \<and> trace (put_book calm shelf {''a.pdf''} ''abc'' book_a) =
       [Query (SqlUpdate ''abc''), ConsoleError,
        Send \<lparr>status = 500, payload = Ack False ErrMessage\<rparr>]"
proof -
  have bad: "update_raises calm shelf ''abc'' book_a"
    by (simp add: update_raises_def example_ids)
  have none: "cleanup_calls (trace (put_book calm shelf {''a.pdf''} ''abc'' book_a)) = []"
    using bad by (simp add: put_book_calls)
  from put_book_fails [OF bad, of "{''a.pdf''}"] none example_rows(4)
  show ?thesis by (simp add: example_body)
qed

text \<open>
  Claim C10, amended. The update handler makes no existence check: it never answers 404.
  When no row has the id and the \<open>UPDATE\<close> statement succeeds, the handler issues the
  statement, which changes no row (the table is unchanged), runs the cleanup block on the
  old URL exactly when \<open>old_pdf_url\<close> is present and differs from \<open>pdf_url\<close>, and answers
  200; the calls it makes are exactly these, and the bucket is what the block leaves.
  With no row for the id, the statement raises exactly when PostgreSQL cannot read the
  id, the title or the URL is too long for its column, or the database fails for a reason
  of its own. Whenever the statement raises, the handler issues it, logs, and answers 500
  with the table and the bucket unchanged and no cleanup call.
\<close>

theorem put_book_no_existence_check:
  "status_of (put_book e d s i b) \<noteq> Some 404
   \<and> (matching_row e d i = None \<and> \<not> update_raises e d i b \<longrightarrow>
        db (put_book e d s i b) = d
        \<and> status_of (put_book e d s i b) = Some 200
        \<and> trace (put_book e d s i b) =
            Query (SqlUpdate i) #
              (if truthy (b_old_pdf_url b) \<and> \<not> strict_eq (b_old_pdf_url b) (b_pdf_url b)
               then snd (cleanup e s (b_old_pdf_url b)) else [])
              @ [Send (json 200 True ''Buku berhasil diperbarui'')]
        \<and> store (put_book e d s i b) =
            (if truthy (b_old_pdf_url b) \<and> \<not> strict_eq (b_old_pdf_url b) (b_pdf_url b)
             then fst (cleanup e s (b_old_pdf_url b)) else s)
        \<and> (truthy (b_old_pdf_url b) \<and> \<not> strict_eq (b_old_pdf_url b) (b_pdf_url b) \<longrightarrow>
             cleanup_calls (trace (put_book e d s i b)) =
               NewURL (b_old_pdf_url b) #
                 (case url_pathname e (b_old_pdf_url b) of None \<Rightarrow> []
                  | Some p \<Rightarrow>
                      (case storage_key p of None \<Rightarrow> [] | Some k \<Rightarrow> [StorageRemove k]))))
   \<and> (matching_row e d i = None \<longrightarrow>
        (update_raises e d i b \<longleftrightarrow>
           raises e AtUpdate \<or> int4_in e i = None
           \<or> varchar 255 (sql_param e (b_title b)) = None
           \<or> varchar 1024 (sql_param e (b_pdf_url b)) = None))
   \<and> (update_raises e d i b \<longrightarrow>
        trace (put_book e d s i b) =
          [Query (SqlUpdate i), ConsoleError,
           Send \<lparr>status = 500, payload = Ack False ErrMessage\<rparr>]
        \<and> status_of (put_book e d s i b) = Some 500
        \<and> db (put_book e d s i b) = d \<and> store (put_book e d s i b) = s
        \<and> cleanup_calls (trace (put_book e d s i b)) = [])"
proof -
  have never: "status_of (put_book e d s i b) \<noteq> Some 404"
    using put_book_trace [of e d i b s] put_book_fails [of e d i b s]
    by (cases "update_raises e d i b") simp_all
  have same: "matching_row e d i = None \<Longrightarrow> d\<lparr>books := update_rows e i b (books d)\<rparr> = d"
    by (simp add: update_rows_absent)
  have reasons: "matching_row e d i = None \<longrightarrow>
        (update_raises e d i b \<longleftrightarrow>
           raises e AtUpdate \<or> int4_in e i = None
           \<or> varchar 255 (sql_param e (b_title b)) = None
           \<or> varchar 1024 (sql_param e (b_pdf_url b)) = None)"
    by (simp add: update_raises_def)
  have calls: "(truthy (b_old_pdf_url b) \<and> \<not> strict_eq (b_old_pdf_url b) (b_pdf_url b)
        \<and> \<not> update_raises e d i b \<longrightarrow>
      cleanup_calls (trace (put_book e d s i b)) =
          NewURL (b_old_pdf_url b) #
            (case url_pathname e (b_old_pdf_url b) of None \<Rightarrow> []
             | Some p \<Rightarrow> (case storage_key p of None \<Rightarrow> [] | Some k \<Rightarrow> [StorageRemove k])))
    \<and> (update_raises e d i b \<longrightarrow> cleanup_calls (trace (put_book e d s i b)) = [])"
    by (simp add: put_book_calls)
  have runs: "matching_row e d i = None \<and> \<not> update_raises e d i b \<longrightarrow>
        db (put_book e d s i b) = d
        \<and> status_of (put_book e d s i b) = Some 200
        \<and> trace (put_book e d s i b) =
            Query (SqlUpdate i) #
              (if truthy (b_old_pdf_url b) \<and> \<not> strict_eq (b_old_pdf_url b) (b_pdf_url b)
               then snd (cleanup e s (b_old_pdf_url b)) else [])
              @ [Send (json 200 True ''Buku berhasil diperbarui'')]
        \<and> store (put_book e d s i b) =
            (if truthy (b_old_pdf_url b) \<and> \<not> strict_eq (b_old_pdf_url b) (b_pdf_url b)
             then fst (cleanup e s (b_old_pdf_url b)) else s)"
    using put_book_trace [of e d i b s] same by simp
  have fails: "update_raises e d i b \<longrightarrow>
        trace (put_book e d s i b) =
          [Query (SqlUpdate i), ConsoleError,
           Send \<lparr>status = 500, payload = Ack False ErrMessage\<rparr>]
        \<and> status_of (put_book e d s i b) = Some 500
        \<and> db (put_book e d s i b) = d \<and> store (put_book e d s i b) = s"
    using put_book_fails [of e d i b s] by simp
  from never calls runs fails reasons show ?thesis by blast
qed

theorem put_book_no_existence_check_witness:
  "db (put_book calm shelf {''a.pdf''} ''7'' book_a) = shelf
   \<and> status_of (put_book calm shelf {''a.pdf''} ''7'' book_a) = Some 200
   \<and> trace (put_book calm shelf {''a.pdf''} ''7'' book_a) =
       [Query (SqlUpdate ''7''), NewURL (JStr ''https://store/ebook-pdf/a.pdf''),
        StorageRemove ''a.pdf'', Send (json 200 True ''Buku berhasil diperbarui'')]
   \<and> store (put_book calm shelf {''a.pdf''} ''7'' book_a) = {}
   \<and> trace (put_book (calm\<lparr>raises := (\<lambda>x. x = AtUpdate)\<rparr>) shelf {''a.pdf''} ''7'' book_a) =
       [Query (SqlUpdate ''7''), ConsoleError,
        Send \<lparr>status = 500, payload = Ack False ErrMessage\<rparr>]
   \<and> store (put_book (calm\<lparr>raises := (\<lambda>x. x = AtUpdate)\<rparr>) shelf {''a.pdf''} ''7'' book_a)
       = {''a.pdf''}"
proof -
  have ok: "\<not> update_raises calm shelf ''7'' book_a"
    by (simp add: update_raises_def example_quiet example_ids example_rows example_body)
  have bad: "update_raises (calm\<lparr>raises := (\<lambda>x. x = AtUpdate)\<rparr>) shelf ''7'' book_a"
    by (simp add: update_raises_def)
  from put_book_no_existence_check [of calm shelf "{''a.pdf''}" "''7''" book_a] ok
  have "db (put_book calm shelf {''a.pdf''} ''7'' book_a) = shelf
    \<and> status_of (put_book calm shelf {''a.pdf''} ''7'' book_a) = Some 200
    \<and> trace (put_book calm shelf {''a.pdf''} ''7'' book_a) =
       [Query (SqlUpdate ''7''), NewURL (JStr ''https://store/ebook-pdf/a.pdf''),
        StorageRemove ''a.pdf'', Send (json 200 True ''Buku berhasil diperbarui'')]
    \<and> store (put_book calm shelf {''a.pdf''} ''7'' book_a) = {}"
    by (simp add: example_rows example_body example_url)
  moreover
  from put_book_no_existence_check [of "calm\<lparr>raises := (\<lambda>x. x = AtUpdate)\<rparr>" shelf
      "{''a.pdf''}" "''7''" book_a] bad
  have "trace (put_book (calm\<lparr>raises := (\<lambda>x. x = AtUpdate)\<rparr>) shelf {''a.pdf''} ''7'' book_a) =
       [Query (SqlUpdate ''7''), ConsoleError,
        Send \<lparr>status = 500, payload = Ack False ErrMessage\<rparr>]
    \<and> store (put_book (calm\<lparr>raises := (\<lambda>x. x = AtUpdate)\<rparr>) shelf {''a.pdf''} ''7'' book_a)
       = {''a.pdf''}"
    by simp
  ultimately show ?thesis by simp
qed

subsection \<open>Create\<close>




subsection \<open>The session gate\<close>

text \<open>
  Claim C8. A request whose session cookie is not the marker \<open>admin_logged_in\<close> never
  reaches the handler of a protected route: the table and the bucket are unchanged, and
  the only call made is the sending of the gate's own response. That response is the 401
  body for an API-style request, in particular for every path under \<open>/api/\<close>, where the
  paged list, create, update, delete and check-auth routes are registered; otherwise it
  is the redirect to the login page.
\<close>

theorem protected_requires_session:
  "session req \<noteq> JStr ''admin_logged_in'' \<Longrightarrow>
     db (protected e req ep d s) = d \<and> store (protected e req ep d s) = s
     \<and> \<not> escaped (protected e req ep d s)
     \<and> trace (protected e req ep d s) =
         [Send (if isApiRequest req
                then json 401 False ''Akses ditolak. Silakan login terlebih dahulu.''
                else \<lparr>status = 302, payload = RedirectTo ''/login''\<rparr>)]
     \<and> (prefix ''/api/'' (path req) \<longrightarrow> status_of (protected e req ep d s) = Some 401)"
  by (simp add: protected_def authMiddleware_def isApiRequest_def status_of_def response_of_def
      json_def)

theorem protected_requires_session_witness:
  "db (protected calm visitor (DeleteBook ''1'') shelf {''a.pdf''}) = shelf
   \<and> store (protected calm visitor (DeleteBook ''1'') shelf {''a.pdf''}) = {''a.pdf''}
   \<and> status_of (protected calm visitor (DeleteBook ''1'') shelf {''a.pdf''}) = Some 401
   \<and> status_of (protected calm visitor (CreateBook book_a) shelf {''a.pdf''}) = Some 401
   \<and> status_of (protected calm visitor (UpdateBook ''1'' book_a) shelf {''a.pdf''}) = Some 401
   \<and> status_of (protected calm visitor (ListBooks None None) shelf {''a.pdf''}) = Some 401
   \<and> status_of (protected calm (visitor\<lparr>path := ''/api/check-auth''\<rparr>) CheckAuth shelf {''a.pdf''})
       = Some 401"
proof -
  have out: "session visitor \<noteq> JStr ''admin_logged_in''"
    "session (visitor\<lparr>path := ''/api/check-auth''\<rparr>) \<noteq> JStr ''admin_logged_in''"
    by (simp_all add: visitor_def)
  have api: "prefix ''/api/'' (path visitor)"
    "prefix ''/api/'' (path (visitor\<lparr>path := ''/api/check-auth''\<rparr>))"
    by (simp_all add: visitor_def)
  from protected_requires_session [OF out(1), of calm "DeleteBook ''1''" shelf "{''a.pdf''}"]
    protected_requires_session [OF out(1), of calm "CreateBook book_a" shelf "{''a.pdf''}"]
    protected_requires_session [OF out(1), of calm "UpdateBook ''1'' book_a" shelf "{''a.pdf''}"]
    protected_requires_session [OF out(1), of calm "ListBooks None None" shelf "{''a.pdf''}"]
    protected_requires_session [OF out(2), of calm CheckAuth shelf "{''a.pdf''}"]
    api
  show ?thesis by simp
qed

subsection \<open>The storage key\<close>

lemma cut_Some: "cut sep s = Some (a, b) \<Longrightarrow> s = a @ sep @ b"
proof (induction s arbitrary: a)
  case Nil
  then show ?case by (simp split: if_splits)
next
  case (Cons c cs)
  show ?case
  proof (cases "prefix sep (c # cs)")
    case True
    with Cons.prems have ab: "a = []" "b = drop (length sep) (c # cs)" by simp_all
    from True obtain rest where "c # cs = sep @ rest" by (auto simp: prefix_def)
    with ab show ?thesis by simp
  next
    case False
    with Cons.prems obtain a' where "cut sep cs = Some (a', b)" and "a = c # a'"
      by (auto split: option.splits)
    with Cons.IH show ?thesis by simp
  qed
qed

lemma cut_None: "cut sep s = None \<Longrightarrow> s \<noteq> a @ sep @ b"
proof (induction s arbitrary: a)
  case Nil
  then show ?case by (simp split: if_splits)
next
  case (Cons c cs)
  from Cons.prems have no_prefix: "\<not> prefix sep (c # cs)" and rest: "cut sep cs = None"
    by (auto split: if_splits option.splits)
  show ?case
  proof (cases a)
    case Nil
    with no_prefix show ?thesis by (auto simp: prefix_def)
  next
    case (Cons x xs)
    with Cons.IH [OF rest, of xs] show ?thesis by auto
  qed
qed

text \<open>
  Claim C5, at a key that holds the bucket segment again. The object stored under the key
  \<open>docs/ebook-pdf/a.pdf\<close> has the public path \<open>/ebook-pdf/docs/ebook-pdf/a.pdf\<close>. The
  part of that path after the bucket segment is \<open>docs/ebook-pdf/a.pdf\<close>, but element 1 of
  the split is \<open>docs\<close>, and that is the key the cleanup asks the store to delete: the
  object \<open>docs\<close> goes, the book's file stays.
\<close>

theorem storage_key_repeated_segment:
  "js_split ''/ebook-pdf/'' ''/ebook-pdf/docs/ebook-pdf/a.pdf'' = [[], ''docs'', ''a.pdf'']
   \<and> storage_key ''/ebook-pdf/docs/ebook-pdf/a.pdf'' = Some ''docs''
   \<and> cleanup calm {''docs'', ''docs/ebook-pdf/a.pdf''}
        (JStr ''https://store/ebook-pdf/docs/ebook-pdf/a.pdf'')
      = ({''docs/ebook-pdf/a.pdf''},
         [NewURL (JStr ''https://store/ebook-pdf/docs/ebook-pdf/a.pdf''), StorageRemove ''docs''])"
  by (simp add: storage_key_def cleanup_def calm_def example_pathname_def insert_Diff_if)

text \<open>
  What the key extraction does when the bucket segment is absent from the path, and when
  it occurs once. In the first case there is no key, and the cleanup block ends after the
  URL constructor: no remote delete, no warning, the bucket as it was. In the second the
  key is all that follows the segment, and there is no key when nothing follows.
\<close>

theorem storage_key_single_segment:
  "((\<forall>x y. p \<noteq> x @ ''/ebook-pdf/'' @ y) \<longrightarrow>
      storage_key p = None
      \<and> (url_pathname e v = Some p \<longrightarrow> cleanup e s v = (s, [NewURL v])))
   \<and> (cut ''/ebook-pdf/'' p = Some (a, k) \<and> cut ''/ebook-pdf/'' k = None \<longrightarrow>
        p = a @ ''/ebook-pdf/'' @ k \<and> storage_key p = (if k = [] then None else Some k))"
proof (intro conjI impI)
  assume absent: "\<forall>x y. p \<noteq> x @ ''/ebook-pdf/'' @ y"
  have "cut ''/ebook-pdf/'' p = None"
  proof (cases "cut ''/ebook-pdf/'' p")
    case None
    then show ?thesis .
  next
    case (Some xy)
    then have "cut ''/ebook-pdf/'' p = Some (fst xy, snd xy)" by simp
    then have "p = fst xy @ ''/ebook-pdf/'' @ snd xy" by (rule cut_Some)
    with absent show ?thesis by blast
  qed
  then show none: "storage_key p = None" by (simp add: storage_key_def)
  assume "url_pathname e v = Some p"
  with none show "cleanup e s v = (s, [NewURL v])" by (simp add: cleanup_def)
next
  assume "cut ''/ebook-pdf/'' p = Some (a, k) \<and> cut ''/ebook-pdf/'' k = None"
  then have "cut ''/ebook-pdf/'' p = Some (a, k)" by (rule conjunct1)
  then show "p = a @ ''/ebook-pdf/'' @ k" by (rule cut_Some)
next
  assume "cut ''/ebook-pdf/'' p = Some (a, k) \<and> cut ''/ebook-pdf/'' k = None"
  then show "storage_key p = (if k = [] then None else Some k)"
    by (simp add: storage_key_def)
qed

theorem storage_key_single_segment_witness:
  "storage_key ''/storage/v1/object/public/ebook-pdf/a.pdf'' = Some ''a.pdf''
   \<and> storage_key ''/storage/v1/object/public/other/a.pdf'' = None
   \<and> storage_key ''/ebook-pdf/'' = None"
proof -
  have one: "cut ''/ebook-pdf/'' ''/storage/v1/object/public/ebook-pdf/a.pdf''
      = Some (''/storage/v1/object/public'', ''a.pdf'') \<and> cut ''/ebook-pdf/'' ''a.pdf'' = None"
    by simp
  have "cut ''/ebook-pdf/'' ''/storage/v1/object/public/other/a.pdf'' = None"
    by simp
  then have none: "\<forall>x y. ''/storage/v1/object/public/other/a.pdf'' \<noteq> x @ ''/ebook-pdf/'' @ y"
    using cut_None by blast
  have bare: "cut ''/ebook-pdf/'' ''/ebook-pdf/'' = Some ([], []) \<and> cut ''/ebook-pdf/'' [] = None"
    by simp
  from storage_key_single_segment [where p = "''/storage/v1/object/public/ebook-pdf/a.pdf''"
      and a = "''/storage/v1/object/public''" and k = "''a.pdf''"] one
    storage_key_single_segment [where p = "''/storage/v1/object/public/other/a.pdf''"] none
    storage_key_single_segment [where p = "''/ebook-pdf/''" and a = "[]" and k = "[]"] bare
  show ?thesis by simp
qed

subsection \<open>The paged list\<close>

text \<open>
  Claim C6, at \<open>page=-1\<close>. \<open>parseInt\<close> reads \<open>-1\<close>, which is truthy, so the default does
  not replace it: the page is \<open>-1\<close>, the offset is \<open>(-1 - 1) * 5 = -10\<close>, the database
  rejects the negative \<open>OFFSET\<close>, and the handler answers 500. The same happens for a
  negative limit.
\<close>

theorem get_books_negative_page:
  "query_int (Some ''-1'') 1 = - 1
   \<and> trace (get_books calm shelf {''a.pdf''} (Some ''-1'') None) =
       [Query (SqlSelectPage 5 (- 10)), ConsoleError, Send (json 500 False ''Server error'')]
   \<and> status_of (get_books calm shelf {''a.pdf''} (Some ''-1'') None) = Some 500
   \<and> status_of (get_books calm shelf {''a.pdf''} None (Some ''-5'')) = Some 500"
proof -
  have read: "parseInt ''-1'' = Some (- 1)" "parseInt ''-5'' = Some (- 5)"
    by (simp_all add: parseInt_def white_space_def digit_def Let_def)
  then have numbers: "query_int (Some ''-1'') 1 = - 1" "query_int (Some ''-5'') 5 = - 5"
    "query_int None 1 = 1" "query_int None 5 = 5"
    by (simp_all add: query_int_def)
  show ?thesis
    by (simp add: get_books_def numbers inexact_def Let_def status_of_def response_of_def
        json_def calm_def)
qed

text \<open>
  What the paged list does for the values it accepts. A missing parameter, one that
  \<open>parseInt\<close> cannot read and one that reads as 0 give the default. When page and limit
  are at least 1, none of page, limit, offset and the row count exceeds \<open>2^53\<close> (so
  that JavaScript's numbers hold them exactly), and neither query raises, the answer is
  200 with the rows from offset \<open>(page - 1) * limit\<close> on, at most \<open>limit\<close> of them,
  newest first, and with \<open>totalPages\<close> the ceiling of \<open>totalBooks / limit\<close>; the table
  is unchanged.
\<close>

theorem get_books_page:
  "query_int None dflt = dflt
   \<and> (parseInt q = None \<or> parseInt q = Some 0 \<longrightarrow> query_int (Some q) dflt = dflt)
   \<and> (1 \<le> query_int page_q 1 \<and> 1 \<le> query_int limit_q 5
        \<and> \<not> inexact (query_int page_q 1) \<and> \<not> inexact (query_int limit_q 5)
        \<and> \<not> inexact ((query_int page_q 1 - 1) * query_int limit_q 5)
        \<and> \<not> inexact (int (length (books d)))
        \<and> \<not> raises e AtSelectPage \<and> \<not> raises e AtSelectCount \<longrightarrow>
        db (get_books e d s page_q limit_q) = d
        \<and> response_of (get_books e d s page_q limit_q) =
            Some \<lparr>status = 200,
                  payload = BookPage
                    (take (nat (query_int limit_q 5))
                       (drop (nat ((query_int page_q 1 - 1) * query_int limit_q 5))
                          (newest_first (books d))))
                    (query_int page_q 1)
                    \<lceil>real (length (books d)) / real_of_int (query_int limit_q 5)\<rceil>
                    (int (length (books d)))\<rparr>)"
proof (intro conjI impI)
  show "query_int None dflt = dflt" by (simp add: query_int_def)
next
  assume "parseInt q = None \<or> parseInt q = Some 0"
  then show "query_int (Some q) dflt = dflt" by (auto simp: query_int_def)
next
  assume a: "1 \<le> query_int page_q 1 \<and> 1 \<le> query_int limit_q 5
      \<and> \<not> inexact (query_int page_q 1) \<and> \<not> inexact (query_int limit_q 5)
      \<and> \<not> inexact ((query_int page_q 1 - 1) * query_int limit_q 5)
      \<and> \<not> inexact (int (length (books d)))
      \<and> \<not> raises e AtSelectPage \<and> \<not> raises e AtSelectCount"
  then show "db (get_books e d s page_q limit_q) = d"
    by (simp add: get_books_def Let_def)
next
  assume a: "1 \<le> query_int page_q 1 \<and> 1 \<le> query_int limit_q 5
      \<and> \<not> inexact (query_int page_q 1) \<and> \<not> inexact (query_int limit_q 5)
      \<and> \<not> inexact ((query_int page_q 1 - 1) * query_int limit_q 5)
      \<and> \<not> inexact (int (length (books d)))
      \<and> \<not> raises e AtSelectPage \<and> \<not> raises e AtSelectCount"
  then have "0 \<le> (query_int page_q 1 - 1) * query_int limit_q 5" by simp
  then have "\<not> (query_int page_q 1 - 1) * query_int limit_q 5 < 0" by simp
  with a show "response_of (get_books e d s page_q limit_q) =
      Some \<lparr>status = 200,
            payload = BookPage
              (take (nat (query_int limit_q 5))
                 (drop (nat ((query_int page_q 1 - 1) * query_int limit_q 5))
                    (newest_first (books d))))
              (query_int page_q 1)
              \<lceil>real (length (books d)) / real_of_int (query_int limit_q 5)\<rceil>
              (int (length (books d)))\<rparr>"
    by (simp add: get_books_def Let_def response_of_def)
qed

theorem get_books_page_witness:
  "query_int (Some ''abc'') 1 = 1 \<and> query_int (Some ''0'') 5 = 5
   \<and> response_of (get_books calm shelf {''a.pdf''} (Some ''2'') (Some ''3'')) =
       Some \<lparr>status = 200, payload = BookPage [] 2 1 1\<rparr>"
proof -
  have p: "parseInt ''abc'' = None" "parseInt ''0'' = Some 0"
    by (simp_all add: parseInt_def white_space_def digit_def Let_def)
  have q: "query_int (Some ''2'') 1 = 2" "query_int (Some ''3'') 5 = 3"
    by (simp_all add: query_int_def parseInt_def white_space_def digit_def Let_def)
  have c: "\<not> raises calm AtSelectPage \<and> \<not> raises calm AtSelectCount"
    by (simp add: calm_def)
  have exact: "\<not> inexact 2" "\<not> inexact 3" "\<not> inexact 1"
    by (simp_all add: inexact_def)
  have third: "\<lceil>(1::real) / 3\<rceil> = 1"
    by (rule ceiling_unique) simp_all
  from get_books_page [where dflt = 1 and q = "''abc''" and page_q = "Some ''2''"
      and limit_q = "Some ''3''" and e = calm and d = shelf and s = "{''a.pdf''}"]
    get_books_page [where dflt = 5 and q = "''0''" and page_q = "Some ''2''"
      and limit_q = "Some ''3''" and e = calm and d = shelf and s = "{''a.pdf''}"] p q c exact
  show ?thesis by (simp add: shelf_def newest_first_def third)
qed

end
